theory Spec2Isabelle
  imports Main
begin

section \<open>Aviation Crew API: authentication, authorization and resource access\<close>

text \<open>
  A shallow embedding of the authentication routes, the users, messages and documents
  stores, the token utilities, the authentication middleware and the encryption
  utilities of the Aviation Crew Communication API.

  Conventions of the embedding:
  \<^item> a point in time is the number of milliseconds since the epoch (what \<^verbatim>\<open>Date.now()\<close>
    returns); an ISO string written by \<^verbatim>\<open>toISOString()\<close> and read back by
    \<^verbatim>\<open>new Date(s)\<close> denotes the same number, so stored dates are kept as numbers;
    one request reads the clock once (\<open>now\<close>);
  \<^item> \<^verbatim>\<open>null\<close> is \<open>None\<close>;
  \<^item> an in-memory array is a list, and a reference to one of its objects is the
    object's position in the list, so that mutation in place is a list update;
  \<^item> a thrown \<^verbatim>\<open>AppError\<close> is \<open>Inl\<close> of its error code; the handlers return the
    response together with the store they leave behind;
  \<^item> functions of third-party libraries (bcrypt, jsonwebtoken, Node's crypto and Buffer)
    are parameters, collected in records.
\<close>

type_synonym timestamp = int

subsection \<open>Array helpers\<close>

text \<open>\<^verbatim>\<open>Array.prototype.findIndex\<close>: the first position whose element satisfies the predicate.\<close>

fun findIndex :: "('a \<Rightarrow> bool) \<Rightarrow> 'a list \<Rightarrow> nat option" where
  "findIndex P [] = None"
| "findIndex P (x # xs) =
     (if P x then Some 0 else map_option Suc (findIndex P xs))"

text \<open>\<^verbatim>\<open>xs.splice(index, 1)\<close>: removes the element at \<open>index\<close>.\<close>

definition splice1 :: "nat \<Rightarrow> 'a list \<Rightarrow> 'a list" where
  "splice1 index xs = take index xs @ drop (Suc index) xs"

subsection \<open>Errors\<close>

datatype error =
    INVALID_CREDENTIALS
  | ACCOUNT_LOCKED int timestamp
  | ACCOUNT_DEACTIVATED
  | USER_EXISTS
  | USER_NOT_FOUND
  | INVALID_CURRENT_PASSWORD
  | RECIPIENT_NOT_FOUND
  | RECIPIENT_INACTIVE
  | MESSAGE_NOT_FOUND
  | MESSAGE_ACCESS_DENIED
  | DELETE_ACCESS_DENIED
  | DELETE_TIME_EXPIRED
  | DELETE_FAILED
  | DOCUMENT_NOT_FOUND
  | ACCESS_DENIED
  | DOWNLOAD_ACCESS_DENIED
  | DOCUMENT_EXPIRED
  | DECRYPTION_FAILED
  | UPDATE_PERMISSION_DENIED
  | CREW_MEMBER_NOT_FOUND
  | CREW_MEMBER_INACTIVE
  | MESSAGE_ALREADY_READ
  | NO_FILES
  | INSUFFICIENT_CLEARANCE
  | UPDATE_ACCESS_DENIED
  | INSUFFICIENT_ROLE
  | INTERNAL_ERROR string

subsection \<open>Users store (data/users)\<close>

text \<open>
  A stored user is the part that responses may show plus the password hash, so that
  \<^verbatim>\<open>const { password, ...userWithoutPassword } = user\<close> is the truncation of the record.
\<close>

record user_public =
  userId :: string
  employeeId :: string
  userName :: string
  role :: string
  department :: string
  clearanceLevel :: int
  airline :: string
  isActive :: bool
  userCreatedAt :: timestamp
  userUpdatedAt :: timestamp
  lastLoginAt :: "timestamp option"
  failedLoginAttempts :: nat
  accountLockedUntil :: "timestamp option"

record user = user_public +
  password :: string

definition userWithoutPassword :: "user \<Rightarrow> user_public" where
  "userWithoutPassword u = user_public.truncate u"

text \<open>
  \<^verbatim>\<open>users.find(user => user.employeeId === employeeId) || null\<close>. The result is a
  reference to the stored object: its position.
\<close>

definition findUserByEmployeeId :: "user list \<Rightarrow> string \<Rightarrow> nat option" where
  "findUserByEmployeeId users eid = findIndex (\<lambda>u. employeeId u = eid) users"


text \<open>
  \<^verbatim>\<open>users[index] = { ...users[index], ...updatedUser }\<close> at the first position with the
  same \<^verbatim>\<open>id\<close>. Every caller passes a complete user object, so the merge is the passed
  object.
\<close>

definition updateUser :: "user list \<Rightarrow> user \<Rightarrow> user list \<times> bool" where
  "updateUser users updatedUser =
     (case findIndex (\<lambda>u. userId u = userId updatedUser) users of
        Some index \<Rightarrow> (users[index := updatedUser], True)
      | None \<Rightarrow> (users, False))"

text \<open>
  The handlers mutate the object they looked up (position \<open>i\<close>) and then call
  \<^verbatim>\<open>updateUser\<close> with it.
\<close>

definition mutateAndUpdate :: "user list \<Rightarrow> nat \<Rightarrow> user \<Rightarrow> user list \<times> bool" where
  "mutateAndUpdate users i user' = updateUser (users[i := user']) user'"

subsection \<open>Libraries and configuration\<close>

record process_env =
  JWT_SECRET :: "string option"
  JWT_EXPIRES_IN :: "string option"
  JWT_REFRESH_SECRET :: "string option"
  JWT_REFRESH_EXPIRES_IN :: "string option"

text \<open>\<^verbatim>\<open>a || b\<close> on strings that may be undefined: the empty string is falsy too.\<close>

definition orElse :: "string option \<Rightarrow> string option \<Rightarrow> string option" where
  "orElse a b = (case a of Some s \<Rightarrow> (if s = [] then b else Some s) | None \<Rightarrow> b)"

definition orDefault :: "string option \<Rightarrow> string \<Rightarrow> string" where
  "orDefault a d = (case a of Some s \<Rightarrow> (if s = [] then d else s) | None \<Rightarrow> d)"

datatype jwt_payload =
    AccessPayload string string string string int string
  | RefreshPayload string string string

record sign_options =
  expiresIn :: string
  issuer :: string
  audience :: string

datatype jwt_error = TokenExpiredError | JsonWebTokenError string | OtherError string

record verify_options =
  verifyIssuer :: "string option"
  verifyAudience :: "string option"

text \<open>
  The libraries: \<^verbatim>\<open>bcrypt.compare\<close>, \<^verbatim>\<open>bcrypt.hash\<close>, \<^verbatim>\<open>jwt.sign\<close> (which throws
  when it has no secret), \<^verbatim>\<open>jwt.verify\<close> at a given time (which throws
  \<^verbatim>\<open>TokenExpiredError\<close>, \<^verbatim>\<open>JsonWebTokenError\<close> or something else) and the \<^verbatim>\<open>exp\<close>
  claim, in seconds, of what \<^verbatim>\<open>jwt.decode\<close> returns (\<open>None\<close> when the token does not
  decode or has no such claim).
\<close>

record libs =
  bcryptCompare :: "string \<Rightarrow> string \<Rightarrow> bool"
  bcryptHash :: "string \<Rightarrow> nat \<Rightarrow> string"
  jwtSign :: "jwt_payload \<Rightarrow> string option \<Rightarrow> sign_options \<Rightarrow> string + string"
  jwtVerify :: "timestamp \<Rightarrow> string \<Rightarrow> string option \<Rightarrow> verify_options
                  \<Rightarrow> jwt_error + jwt_payload"
  jwtDecodeExp :: "string \<Rightarrow> int option"

subsection \<open>Token generation (utils/jwt)\<close>

record token_pair =
  accessToken :: string
  refreshToken :: string

definition generateTokens :: "libs \<Rightarrow> process_env \<Rightarrow> string \<Rightarrow> user \<Rightarrow> string + token_pair" where
  "generateTokens L env randomUUID u =
     (let payload = AccessPayload (employeeId u) (userName u) (role u) (department u)
                      (clearanceLevel u) (airline u)
      in case jwtSign L payload (JWT_SECRET env)
                \<lparr>expiresIn = orDefault (JWT_EXPIRES_IN env) ''15m'',
                 issuer = ''aviation-crew-api'', audience = ''aviation-crew''\<rparr> of
           Inl e \<Rightarrow> Inl e
         | Inr access \<Rightarrow>
             (case jwtSign L (RefreshPayload (employeeId u) ''refresh'' randomUUID)
                     (orElse (JWT_REFRESH_SECRET env) (JWT_SECRET env))
                     \<lparr>expiresIn = orDefault (JWT_REFRESH_EXPIRES_IN env) ''7d'',
                      issuer = ''aviation-crew-api'', audience = ''aviation-crew''\<rparr> of
                Inl e \<Rightarrow> Inl e
              | Inr refresh \<Rightarrow> Inr \<lparr>accessToken = access, refreshToken = refresh\<rparr>))"

subsection \<open>Authentication routes (routes/auth)\<close>

text \<open>The login response: the user without the password, and the tokens.\<close>

record login_response =
  responseUser :: user_public
  responseTokens :: token_pair
  responseExpiresIn :: string

text \<open>\<^verbatim>\<open>Math.ceil((until - now) / 1000 / 60)\<close> for \<open>now < until\<close>.\<close>

definition lockTimeRemaining :: "timestamp \<Rightarrow> timestamp \<Rightarrow> int" where
  "lockTimeRemaining until now = (until - now + 59999) div 60000"

text \<open>
  \<^verbatim>\<open>user.accountLockedUntil && new Date() < new Date(user.accountLockedUntil)\<close>.
\<close>

definition accountIsLocked :: "user \<Rightarrow> timestamp \<Rightarrow> bool" where
  "accountIsLocked u now =
     (case accountLockedUntil u of None \<Rightarrow> False | Some until \<Rightarrow> now < until)"

text \<open>
  \<^verbatim>\<open>POST /auth/login\<close>, the handler behind the rate limiter and the validator.
  The failed-attempts counter and the lock are written on a mismatch; a success
  clears both. A failure of token generation comes after the store was written.
  Every stored user has a counter, so \<^verbatim>\<open>(user.failedLoginAttempts || 0) + 1\<close> is the
  counter plus one.
\<close>

definition login ::
  "libs \<Rightarrow> process_env \<Rightarrow> timestamp \<Rightarrow> string \<Rightarrow> user list \<Rightarrow> string \<Rightarrow> string
     \<Rightarrow> (error + login_response) \<times> user list" where
  "login L env now randomUUID users eid pw =
     (case findUserByEmployeeId users eid of
        None \<Rightarrow> (Inl INVALID_CREDENTIALS, users)
      | Some i \<Rightarrow>
          (let u = users ! i in
           if accountIsLocked u now
           then (Inl (ACCOUNT_LOCKED (lockTimeRemaining (the (accountLockedUntil u)) now)
                        (the (accountLockedUntil u))), users)
           else if \<not> isActive u then (Inl ACCOUNT_DEACTIVATED, users)
           else if \<not> bcryptCompare L pw (password u) then
             (let n = failedLoginAttempts u + 1;
                  u' = u\<lparr>failedLoginAttempts := n,
                         accountLockedUntil :=
                           (if n \<ge> 5 then Some (now + 30 * 60 * 1000) else accountLockedUntil u),
                         userUpdatedAt := now\<rparr>
              in (Inl INVALID_CREDENTIALS, fst (mutateAndUpdate users i u')))
           else
             (let u' = u\<lparr>failedLoginAttempts := 0, accountLockedUntil := None,
                         lastLoginAt := Some now, userUpdatedAt := now\<rparr>;
                  users' = fst (mutateAndUpdate users i u')
              in case generateTokens L env randomUUID u' of
                   Inl e \<Rightarrow> (Inl (INTERNAL_ERROR e), users')
                 | Inr tokens \<Rightarrow>
                     (Inr \<lparr>responseUser = userWithoutPassword u', responseTokens = tokens,
                           responseExpiresIn = orDefault (JWT_EXPIRES_IN env) ''15m''\<rparr>,
                      users'))))"



text \<open>
  \<^verbatim>\<open>PUT /auth/password\<close> for the authenticated \<open>eid\<close> (\<^verbatim>\<open>req.user.employeeId\<close>).
  Only the password and \<^verbatim>\<open>updatedAt\<close> are assigned.
\<close>

definition changePassword ::
  "libs \<Rightarrow> timestamp \<Rightarrow> user list \<Rightarrow> string \<Rightarrow> string \<Rightarrow> string
     \<Rightarrow> (error + unit) \<times> user list" where
  "changePassword L now users eid currentPassword newPassword =
     (case findUserByEmployeeId users eid of
        None \<Rightarrow> (Inl USER_NOT_FOUND, users)
      | Some i \<Rightarrow>
          (let u = users ! i in
           if \<not> bcryptCompare L currentPassword (password u)
           then (Inl INVALID_CURRENT_PASSWORD, users)
           else
             (let u' = u\<lparr>password := bcryptHash L newPassword 12, userUpdatedAt := now\<rparr>
              in (Inr (), fst (mutateAndUpdate users i u')))))"

subsection \<open>Administrative functions of the users store\<close>




subsection \<open>Crew routes (routes/crew): profile update\<close>

text \<open>\<^verbatim>\<open>req.user\<close>, attached by the authentication middleware.\<close>

record req_user =
  reqEmployeeId :: string
  reqName :: string
  reqRole :: string
  reqDepartment :: string
  reqClearanceLevel :: int
  reqAirline :: string

text \<open>
  \<^verbatim>\<open>PUT /crew/:employeeId/profile\<close>: the object is changed in place, without
  \<^verbatim>\<open>updateUser\<close>. An absent or empty field is falsy and leaves the old value.
\<close>

definition truthy :: "string option \<Rightarrow> bool" where
  "truthy v = (case v of None \<Rightarrow> False | Some s \<Rightarrow> s \<noteq> [])"


subsection \<open>Strings and buffers\<close>

text \<open>
  A text is kept as the string of its UTF-8 bytes, and a \<^verbatim>\<open>Buffer\<close> is a string of bytes
  too. \<^verbatim>\<open>str.split(c)\<close> for a separator of one character:
\<close>

fun splitOn :: "char \<Rightarrow> string \<Rightarrow> string list" where
  "splitOn c [] = [[]]"
| "splitOn c (x # xs) =
     (if x = c then [] # splitOn c xs
      else (case splitOn c xs of p # ps \<Rightarrow> (x # p) # ps | [] \<Rightarrow> [[x]]))"

text \<open>\<^verbatim>\<open>buf.toString('hex')\<close>: two lower-case digits for every byte.\<close>

definition hexDigit :: "nat \<Rightarrow> char" where
  "hexDigit n = ''0123456789abcdef'' ! n"

definition toHex :: "string \<Rightarrow> string" where
  "toHex bs = concat (map (\<lambda>b. [hexDigit (of_char b div 16), hexDigit (of_char b mod 16)]) bs)"

definition hexValue :: "char \<Rightarrow> nat option" where
  "hexValue c =
     (let n = (of_char c :: nat) in
      if 48 \<le> n \<and> n \<le> 57 then Some (n - 48)
      else if 97 \<le> n \<and> n \<le> 102 then Some (n - 87)
      else if 65 \<le> n \<and> n \<le> 70 then Some (n - 55)
      else None)"

text \<open>
  \<^verbatim>\<open>Buffer.from(s, 'hex')\<close>: decoding stops at the first pair that is not two
  hexadecimal digits; a single trailing digit is dropped.
\<close>

fun fromHex :: "string \<Rightarrow> string" where
  "fromHex (a # b # rest) =
     (case (hexValue a, hexValue b) of
        (Some h, Some l) \<Rightarrow> char_of (16 * h + l) # fromHex rest
      | _ \<Rightarrow> [])"
| "fromHex _ = []"

subsection \<open>Node's crypto and Buffer, as the encryption utilities call them\<close>

text \<open>
  \<open>createCipherGCM N algorithm key iv aad plaintext\<close> stands for the calls
  \<^verbatim>\<open>crypto.createCipherGCM(algorithm, key, iv)\<close>, \<^verbatim>\<open>setAAD(aad)\<close>,
  \<^verbatim>\<open>update(plaintext)\<close>, \<^verbatim>\<open>final()\<close> and \<^verbatim>\<open>getAuthTag()\<close>: it gives the ciphertext and
  the tag, or the message of the error that one of the calls throws.
  \<open>createDecipherGCM N algorithm key iv aad tag ciphertext\<close> stands for
  \<^verbatim>\<open>crypto.createDecipherGCM(algorithm, key, iv)\<close>, \<^verbatim>\<open>setAAD(aad)\<close>, \<^verbatim>\<open>setAuthTag(tag)\<close>,
  \<^verbatim>\<open>update(ciphertext)\<close> and \<^verbatim>\<open>final()\<close>. \<open>toBase64\<close> and \<open>fromBase64\<close> are
  \<^verbatim>\<open>buf.toString('base64')\<close> and \<^verbatim>\<open>Buffer.from(s, 'base64')\<close>.
\<close>

record node_lib =
  createCipherGCM :: "string \<Rightarrow> string \<Rightarrow> string \<Rightarrow> string \<Rightarrow> string \<Rightarrow> string + string \<times> string"
  createDecipherGCM :: "string \<Rightarrow> string \<Rightarrow> string \<Rightarrow> string \<Rightarrow> string \<Rightarrow> string \<Rightarrow> string + string"
  toBase64 :: "string \<Rightarrow> string"
  fromBase64 :: "string \<Rightarrow> string"

subsection \<open>Encryption utilities (utils/encryption)\<close>

definition ALGORITHM :: string where "ALGORITHM = ''aes-256-gcm''"
definition KEY_LENGTH :: nat where "KEY_LENGTH = 32"
definition IV_LENGTH :: nat where "IV_LENGTH = 16"
definition TAG_LENGTH :: nat where "TAG_LENGTH = 16"

record encrypted =
  encryptedContent :: string
  key :: string

text \<open>
  \<open>randomKey\<close> and \<open>randomIV\<close> are the results of \<^verbatim>\<open>crypto.randomBytes(KEY_LENGTH)\<close>
  and \<^verbatim>\<open>generateIV()\<close> in this call. Whatever the \<^verbatim>\<open>try\<close> block throws is thrown
  again with a prefix.
\<close>

definition encryptMessage :: "node_lib \<Rightarrow> string \<Rightarrow> string \<Rightarrow> string \<Rightarrow> string + encrypted" where
  "encryptMessage N randomKey randomIV message =
     (case createCipherGCM N ALGORITHM randomKey randomIV ''aviation-message'' message of
        Inl e \<Rightarrow> Inl (''Message encryption failed: '' @ e)
      | Inr (enc, tag) \<Rightarrow>
          Inr \<lparr>encryptedContent = toHex randomIV @ '':'' @ toHex enc @ '':'' @ toHex tag,
               key = toBase64 N randomKey\<rparr>)"

definition decryptMessage :: "node_lib \<Rightarrow> string \<Rightarrow> string \<Rightarrow> string + string" where
  "decryptMessage N encryptedMessage keyBase64 =
     (let k = fromBase64 N keyBase64;
          parts = splitOn CHR '':'' encryptedMessage
      in if length parts \<noteq> 3
         then Inl ''Message decryption failed: Invalid encrypted message format''
         else
           (let iv = fromHex (parts ! 0);
                enc = parts ! 1;
                tag = fromHex (parts ! 2)
            in case createDecipherGCM N ALGORITHM k iv ''aviation-message'' tag (fromHex enc) of
                 Inl e \<Rightarrow> Inl (''Message decryption failed: '' @ e)
               | Inr decrypted \<Rightarrow> Inr decrypted))"

definition encryptFile :: "node_lib \<Rightarrow> string \<Rightarrow> string \<Rightarrow> string \<Rightarrow> string + encrypted" where
  "encryptFile N randomKey randomIV fileBuffer =
     (case createCipherGCM N ALGORITHM randomKey randomIV ''aviation-document'' fileBuffer of
        Inl e \<Rightarrow> Inl (''File encryption failed: '' @ e)
      | Inr (enc, tag) \<Rightarrow>
          Inr \<lparr>encryptedContent = toBase64 N (randomIV @ enc @ tag),
               key = toBase64 N randomKey\<rparr>)"

text \<open>
  \<^verbatim>\<open>combined.slice(0, IV_LENGTH)\<close>, \<^verbatim>\<open>combined.slice(-TAG_LENGTH)\<close> and
  \<^verbatim>\<open>combined.slice(IV_LENGTH, -TAG_LENGTH)\<close>; the last is empty when the buffer has
  fewer than 32 bytes.
\<close>

definition decryptFile :: "node_lib \<Rightarrow> string \<Rightarrow> string \<Rightarrow> string + string" where
  "decryptFile N encryptedFileBase64 keyBase64 =
     (let k = fromBase64 N keyBase64;
          combined = fromBase64 N encryptedFileBase64;
          iv = take IV_LENGTH combined;
          tag = drop (length combined - TAG_LENGTH) combined;
          enc = take (length combined - TAG_LENGTH - IV_LENGTH) (drop IV_LENGTH combined)
      in case createDecipherGCM N ALGORITHM k iv ''aviation-document'' tag enc of
           Inl e \<Rightarrow> Inl (''File decryption failed: '' @ e)
         | Inr decrypted \<Rightarrow> Inr decrypted)"

subsection \<open>Messages store (data/messages)\<close>

text \<open>
  A stored message is the part that responses may show plus the original content and
  the encryption key, which the handlers remove from every response.
\<close>

record message_public =
  msgId :: string
  senderId :: string
  senderName :: string
  senderRole :: string
  recipientId :: string
  recipientName :: string
  recipientRole :: string
  content :: string
  isEncrypted :: bool
  priority :: string
  msgCategory :: string
  msgFlightNumber :: "string option"
  msgStatus :: string
  readAt :: "timestamp option"
  msgCreatedAt :: timestamp
  msgUpdatedAt :: timestamp

record message = message_public +
  originalContent :: string
  encryptionKey :: "string option"

definition addMessage :: "message list \<Rightarrow> message \<Rightarrow> message list" where
  "addMessage messages m = messages @ [m]"

definition findMessageById :: "message list \<Rightarrow> string \<Rightarrow> nat option" where
  "findMessageById messages mid = findIndex (\<lambda>m. msgId m = mid) messages"

definition updateMessage :: "message list \<Rightarrow> message \<Rightarrow> message list \<times> bool" where
  "updateMessage messages updatedMessage =
     (case findIndex (\<lambda>m. msgId m = msgId updatedMessage) messages of
        Some index \<Rightarrow> (messages[index := updatedMessage], True)
      | None \<Rightarrow> (messages, False))"

text \<open>\<^verbatim>\<open>messages.splice(index, 1)\<close>: the record leaves the array.\<close>

definition deleteMessage :: "message list \<Rightarrow> string \<Rightarrow> message list \<times> bool" where
  "deleteMessage messages mid =
     (case findIndex (\<lambda>m. msgId m = mid) messages of
        Some index \<Rightarrow> (splice1 index messages, True)
      | None \<Rightarrow> (messages, False))"

text \<open>
  \<^verbatim>\<open>cleanupOldMessages\<close>: \<open>cutoff\<close> is the date that the function computes with
  \<^verbatim>\<open>setDate(getDate() - daysToKeep)\<close>.
\<close>

definition cleanupOldMessages :: "timestamp \<Rightarrow> message list \<Rightarrow> message list \<times> nat" where
  "cleanupOldMessages cutoff messages =
     (let kept = filter (\<lambda>m. msgCreatedAt m > cutoff) messages
      in (kept, length messages - length kept))"

definition markAsRead :: "timestamp \<Rightarrow> message list \<Rightarrow> string \<Rightarrow> string \<Rightarrow> message list \<times> bool" where
  "markAsRead now messages mid eid =
     (case findMessageById messages mid of
        None \<Rightarrow> (messages, False)
      | Some i \<Rightarrow>
          (let m = messages ! i in
           if recipientId m \<noteq> eid then (messages, False)
           else if readAt m = None then
             (let m' = m\<lparr>readAt := Some now, msgUpdatedAt := now\<rparr>
              in updateMessage (messages[i := m']) m')
           else (messages, True)))"

subsection \<open>Messages routes (routes/messages)\<close>

record send_request =
  sendRecipientId :: string
  sendContent :: string
  sendPriority :: "string option"
  sendIsEncrypted :: "bool option"
  sendFlightNumber :: "string option"
  sendCategory :: "string option"

text \<open>
  \<^verbatim>\<open>POST /messages\<close>. \<open>newId\<close> is the \<^verbatim>\<open>uuidv4()\<close> of the request; absent body fields
  take the defaults of the destructuring. An error of \<^verbatim>\<open>encryptMessage\<close> is not an
  \<^verbatim>\<open>AppError\<close> and ends the request before anything is stored.
\<close>

definition sendMessage ::
  "node_lib \<Rightarrow> timestamp \<Rightarrow> string \<Rightarrow> string \<Rightarrow> string \<Rightarrow> user list \<Rightarrow> message list \<Rightarrow> req_user
     \<Rightarrow> send_request \<Rightarrow> (error + message_public) \<times> message list" where
  "sendMessage N now newId randomKey randomIV users messages requester body =
     (let encryptedFlag = (case sendIsEncrypted body of None \<Rightarrow> True | Some b \<Rightarrow> b) in
      case findUserByEmployeeId users (sendRecipientId body) of
        None \<Rightarrow> (Inl RECIPIENT_NOT_FOUND, messages)
      | Some i \<Rightarrow>
          (let recipient = users ! i in
           if \<not> isActive recipient then (Inl RECIPIENT_INACTIVE, messages)
           else
             (case (if encryptedFlag
                    then map_sum id (\<lambda>e. (encryptedContent e, Some (key e)))
                           (encryptMessage N randomKey randomIV (sendContent body))
                    else Inr (sendContent body, None)) of
                Inl e \<Rightarrow> (Inl (INTERNAL_ERROR e), messages)
              | Inr (messageContent, encKey) \<Rightarrow>
                  (let newMessage =
                     \<lparr>msgId = newId,
                      senderId = reqEmployeeId requester,
                      senderName = reqName requester,
                      senderRole = reqRole requester,
                      recipientId = sendRecipientId body,
                      recipientName = userName recipient,
                      recipientRole = role recipient,
                      content = messageContent,
                      isEncrypted = encryptedFlag,
                      priority = (case sendPriority body of None \<Rightarrow> ''normal'' | Some p \<Rightarrow> p),
                      msgCategory = (case sendCategory body of None \<Rightarrow> ''general'' | Some c \<Rightarrow> c),
                      msgFlightNumber = sendFlightNumber body,
                      msgStatus = ''sent'',
                      readAt = None,
                      msgCreatedAt = now,
                      msgUpdatedAt = now,
                      originalContent = sendContent body,
                      encryptionKey = encKey\<rparr>
                   in (Inr (message_public.truncate newMessage),
                       addMessage messages newMessage)))))"

text \<open>
  \<^verbatim>\<open>GET /messages/:id\<close>. The recipient's first read stamps \<^verbatim>\<open>readAt\<close>; the recipient of
  an encrypted message gets the decrypted content, or a marker when decryption throws.
\<close>

definition getMessage ::
  "node_lib \<Rightarrow> timestamp \<Rightarrow> message list \<Rightarrow> req_user \<Rightarrow> string
     \<Rightarrow> (error + message_public) \<times> message list" where
  "getMessage N now messages requester mid =
     (case findMessageById messages mid of
        None \<Rightarrow> (Inl MESSAGE_NOT_FOUND, messages)
      | Some i \<Rightarrow>
          (let m = messages ! i; eid = reqEmployeeId requester in
           if senderId m \<noteq> eid \<and> recipientId m \<noteq> eid
           then (Inl MESSAGE_ACCESS_DENIED, messages)
           else
             (let m' = (if recipientId m = eid \<and> readAt m = None
                        then m\<lparr>readAt := Some now, msgUpdatedAt := now\<rparr> else m);
                  messages' = (if recipientId m = eid \<and> readAt m = None
                               then fst (updateMessage (messages[i := m']) m') else messages);
                  responseMessage = message_public.truncate m';
                  response =
                    (if recipientId m' = eid \<and> isEncrypted m' \<and> truthy (encryptionKey m')
                     then (case decryptMessage N (content m') (the (encryptionKey m')) of
                             Inr decrypted \<Rightarrow> responseMessage\<lparr>content := decrypted\<rparr>
                           | Inl e \<Rightarrow>
                               responseMessage
                                 \<lparr>content := ''[Encrypted message - decryption failed]''\<rparr>)
                     else responseMessage)
              in (Inr response, messages'))))"

text \<open>\<^verbatim>\<open>PUT /messages/:id/read\<close>.\<close>

definition markMessageRead ::
  "timestamp \<Rightarrow> message list \<Rightarrow> req_user \<Rightarrow> string \<Rightarrow> (error + unit) \<times> message list" where
  "markMessageRead now messages requester mid =
     (case findMessageById messages mid of
        None \<Rightarrow> (Inl MESSAGE_NOT_FOUND, messages)
      | Some i \<Rightarrow>
          (let m = messages ! i in
           if recipientId m \<noteq> reqEmployeeId requester then (Inl MESSAGE_ACCESS_DENIED, messages)
           else if readAt m \<noteq> None then (Inl MESSAGE_ALREADY_READ, messages)
           else
             (let m' = m\<lparr>readAt := Some now, msgUpdatedAt := now\<rparr>
              in (Inr (), fst (updateMessage (messages[i := m']) m')))))"

text \<open>
  \<^verbatim>\<open>DELETE /messages/:id\<close>. The age of the message is measured from \<^verbatim>\<open>createdAt\<close>.
\<close>

definition maxDeleteTime :: int where
  "maxDeleteTime = 5 * 60 * 1000"

definition deleteMessageRoute ::
  "timestamp \<Rightarrow> message list \<Rightarrow> req_user \<Rightarrow> string \<Rightarrow> (error + unit) \<times> message list" where
  "deleteMessageRoute now messages requester mid =
     (case findMessageById messages mid of
        None \<Rightarrow> (Inl MESSAGE_NOT_FOUND, messages)
      | Some i \<Rightarrow>
          (let m = messages ! i in
           if senderId m \<noteq> reqEmployeeId requester then (Inl DELETE_ACCESS_DENIED, messages)
           else
             (let messageAge = now - msgCreatedAt m in
              if readAt m \<noteq> None \<and> messageAge > maxDeleteTime
              then (Inl DELETE_TIME_EXPIRED, messages)
              else
                (case deleteMessage messages mid of
                   (messages', deleted) \<Rightarrow>
                     if \<not> deleted then (Inl DELETE_FAILED, messages')
                     else (Inr (), messages')))))"

text \<open>
  \<^verbatim>\<open>requireRole(allowedRoles)\<close> of the authentication middleware, behind
  \<^verbatim>\<open>authenticateToken\<close>: a requester whose role is not among the allowed ones is
  answered with 403 and \<^verbatim>\<open>INSUFFICIENT_ROLE\<close>; \<open>None\<close> is \<^verbatim>\<open>next()\<close>.
\<close>

definition requireRole :: "string list \<Rightarrow> req_user \<Rightarrow> error option" where
  "requireRole allowedRoles requester =
     (if reqRole requester \<notin> set allowedRoles then Some INSUFFICIENT_ROLE else None)"

text \<open>\<^verbatim>\<open>messages.filter(message => message.flightNumber === flightNumber)\<close>.\<close>

definition findMessagesByFlight :: "message list \<Rightarrow> string \<Rightarrow> message list" where
  "findMessagesByFlight messages flightNumber =
     filter (\<lambda>m. msgFlightNumber m = Some flightNumber) messages"

text \<open>
  \<^verbatim>\<open>GET /messages/flight/:flightNumber\<close>, for pilots, co-pilots and dispatchers. The
  messages of the flight are sorted by \<^verbatim>\<open>createdAt\<close>, newest first (the comparison is
  the difference of the two times, and \<^verbatim>\<open>Array.prototype.sort\<close> is stable), and
  paginated as the documents are. Each listed message loses the key and the original
  content; the content of an encrypted one is replaced by a marker. The handler
  compares the requester with neither the sender nor the recipient, and it leaves the
  store as it is.
\<close>

record flight_messages_response =
  responseFlightNumber :: string
  listedMessages :: "message_public list"
  messagesCurrentPage :: nat
  messagesTotalPages :: nat
  totalMessages :: nat
  messagesHasNextPage :: bool
  messagesHasPrevPage :: bool

definition processedMessage :: "message \<Rightarrow> message_public" where
  "processedMessage msg =
     (if isEncrypted msg
      then (message_public.truncate msg)\<lparr>content := ''[Encrypted Message]''\<rparr>
      else message_public.truncate msg)"

definition getFlightMessages ::
  "message list \<Rightarrow> req_user \<Rightarrow> string \<Rightarrow> nat \<Rightarrow> nat \<Rightarrow> error + flight_messages_response" where
  "getFlightMessages messages requester flightNumber page limit =
     (case requireRole [''pilot'', ''co-pilot'', ''dispatcher''] requester of
        Some e \<Rightarrow> Inl e
      | None \<Rightarrow>
          (let flightMessages = sort_key (\<lambda>m. - msgCreatedAt m)
                                  (findMessagesByFlight messages flightNumber);
               startIndex = (page - 1) * limit;
               paginatedMessages = take limit (drop startIndex flightMessages)
           in Inr \<lparr>responseFlightNumber = flightNumber,
                    listedMessages = map processedMessage paginatedMessages,
                    messagesCurrentPage = page,
                    messagesTotalPages = (length flightMessages + limit - 1) div limit,
                    totalMessages = length flightMessages,
                    messagesHasNextPage =
                      (page < (length flightMessages + limit - 1) div limit),
                    messagesHasPrevPage = (page > 1)\<rparr>))"

text \<open>The array \<^verbatim>\<open>messages\<close> as the module initialises it.\<close>

definition messages0 :: "message list" where
  "messages0 =
  [\<lparr>msgId = ''msg-001'', senderId = ''AA12345'', senderName = ''Captain Sarah Johnson'',
     senderRole = ''pilot'', recipientId = ''AA12346'',
     recipientName = ''First Officer Mike Chen'', recipientRole = ''co-pilot'',
     content = ''Weather update for flight AA1234 - expect turbulence over Chicago area around 2:30 PM EST.'',
     isEncrypted = False, priority = ''high'', msgCategory = ''weather'',
     msgFlightNumber = Some ''AA1234'', msgStatus = ''sent'', readAt = Some 1705328100000,
     msgCreatedAt = 1705327800000, msgUpdatedAt = 1705328100000,
     originalContent = ''Weather update for flight AA1234 - expect turbulence over Chicago area around 2:30 PM EST.'',
     encryptionKey = None\<rparr>,
   \<lparr>msgId = ''msg-002'', senderId = ''AA12349'', senderName = ''Dispatcher Jennifer Wilson'',
     senderRole = ''dispatcher'', recipientId = ''AA12345'',
     recipientName = ''Captain Sarah Johnson'', recipientRole = ''pilot'',
     content = ''Flight plan revision: Route change due to air traffic. New routing via WYNDE waypoint.'',
     isEncrypted = False, priority = ''urgent'', msgCategory = ''flight-plan'',
     msgFlightNumber = Some ''AA1234'', msgStatus = ''sent'', readAt = None,
     msgCreatedAt = 1705326300000, msgUpdatedAt = 1705326300000,
     originalContent = ''Flight plan revision: Route change due to air traffic. New routing via WYNDE waypoint.'',
     encryptionKey = None\<rparr>,
   \<lparr>msgId = ''msg-003'', senderId = ''AA12347'', senderName = ''Flight Attendant Lisa Martinez'',
     senderRole = ''flight-attendant'', recipientId = ''AA12345'',
     recipientName = ''Captain Sarah Johnson'', recipientRole = ''pilot'',
     content = ''Cabin secure for takeoff. All passengers seated and belted.'',
     isEncrypted = False, priority = ''normal'', msgCategory = ''safety'',
     msgFlightNumber = Some ''AA1234'', msgStatus = ''sent'', readAt = Some 1705330920000,
     msgCreatedAt = 1705330800000, msgUpdatedAt = 1705330920000,
     originalContent = ''Cabin secure for takeoff. All passengers seated and belted.'',
     encryptionKey = None\<rparr>,
   \<lparr>msgId = ''msg-004'', senderId = ''AA12348'', senderName = ''Gate Agent Robert Davis'',
     senderRole = ''gate-agent'', recipientId = ''AA12345'',
     recipientName = ''Captain Sarah Johnson'', recipientRole = ''pilot'',
     content = ''Final passenger count: 156 passengers, 8 crew. Boarding complete.'',
     isEncrypted = False, priority = ''normal'', msgCategory = ''operational'',
     msgFlightNumber = Some ''AA1234'', msgStatus = ''sent'', readAt = None,
     msgCreatedAt = 1705330500000, msgUpdatedAt = 1705330500000,
     originalContent = ''Final passenger count: 156 passengers, 8 crew. Boarding complete.'',
     encryptionKey = None\<rparr>]"

subsection \<open>Documents store (data/documents)\<close>

record access_log_entry =
  action :: string
  logEmployeeId :: string
  logName :: string
  logTimestamp :: timestamp
  details :: string

text \<open>
  A stored document is the part that responses may show plus the encrypted content and
  the key, which the handlers remove from every response.
\<close>

record document_public =
  docId :: string
  title :: string
  description :: string
  docCategory :: string
  accessLevel :: int
  docFlightNumber :: "string option"
  fileName :: string
  fileSize :: nat
  mimeType :: string
  uploadedBy :: string
  uploaderName :: string
  uploaderRole :: string
  docStatus :: string
  downloadCount :: nat
  expiresAt :: "timestamp option"
  docCreatedAt :: timestamp
  docUpdatedAt :: timestamp
  accessLog :: "access_log_entry list"

record document = document_public +
  docEncryptedContent :: string
  docEncryptionKey :: string

definition addDocument :: "document list \<Rightarrow> document \<Rightarrow> document list" where
  "addDocument documents d = documents @ [d]"

definition findDocumentById :: "document list \<Rightarrow> string \<Rightarrow> nat option" where
  "findDocumentById documents did = findIndex (\<lambda>d. docId d = did) documents"

definition updateDocument :: "document list \<Rightarrow> document \<Rightarrow> document list \<times> bool" where
  "updateDocument documents updatedDocument =
     (case findIndex (\<lambda>d. docId d = docId updatedDocument) documents of
        Some index \<Rightarrow> (documents[index := updatedDocument], True)
      | None \<Rightarrow> (documents, False))"

text \<open>The object at position \<open>i\<close> is changed in place and then passed to \<^verbatim>\<open>updateDocument\<close>.\<close>

definition changeDocument :: "document list \<Rightarrow> nat \<Rightarrow> document \<Rightarrow> document list \<times> bool" where
  "changeDocument documents i d' = updateDocument (documents[i := d']) d'"

text \<open>\<^verbatim>\<open>deleteDocument\<close>: a soft delete, the status becomes \<^verbatim>\<open>'deleted'\<close>.\<close>

definition deleteDocument :: "timestamp \<Rightarrow> document list \<Rightarrow> string \<Rightarrow> document list \<times> bool" where
  "deleteDocument now documents did =
     (case findDocumentById documents did of
        None \<Rightarrow> (documents, False)
      | Some i \<Rightarrow>
          changeDocument documents i
            ((documents ! i)\<lparr>docStatus := ''deleted'', docUpdatedAt := now\<rparr>))"

definition logDocumentAccess ::
  "timestamp \<Rightarrow> document list \<Rightarrow> string \<Rightarrow> string \<Rightarrow> req_user \<Rightarrow> string
     \<Rightarrow> document list \<times> bool" where
  "logDocumentAccess now documents did act requester det =
     (case findDocumentById documents did of
        None \<Rightarrow> (documents, False)
      | Some i \<Rightarrow>
          (let d = documents ! i;
               logEntry = \<lparr>action = act, logEmployeeId = reqEmployeeId requester,
                           logName = reqName requester, logTimestamp = now, details = det\<rparr>
           in changeDocument documents i
                (d\<lparr>accessLog := accessLog d @ [logEntry], docUpdatedAt := now\<rparr>)))"

text \<open>\<^verbatim>\<open>cleanupExpiredDocuments\<close>: active documents past their expiry become \<^verbatim>\<open>'expired'\<close>.\<close>

definition cleanupExpiredDocuments :: "timestamp \<Rightarrow> document list \<Rightarrow> document list \<times> nat" where
  "cleanupExpiredDocuments now documents =
     (let due = (\<lambda>d. (case expiresAt d of None \<Rightarrow> False | Some e \<Rightarrow> e \<le> now) \<and>
                        docStatus d = ''active'')
      in (map (\<lambda>d. if due d then d\<lparr>docStatus := ''expired'', docUpdatedAt := now\<rparr> else d)
            documents,
          length (filter due documents)))"

subsection \<open>Documents routes (routes/documents)\<close>

record upload_file =
  originalname :: string
  buffer :: string
  fileSizeBytes :: nat
  mimetype :: string

record upload_request =
  upTitle :: string
  upDescription :: "string option"
  upCategory :: string
  upAccessLevel :: int
  upFlightNumber :: "string option"
  upExpiresAt :: "timestamp option"

text \<open>
  The loop of \<^verbatim>\<open>POST /documents\<close> over the uploaded files; each file comes with the
  \<^verbatim>\<open>uuidv4()\<close>, the random key and the random IV of its turn. An error of
  \<^verbatim>\<open>encryptFile\<close> ends the request; the documents of earlier turns are in the store by
  then.
\<close>

fun uploadFiles ::
  "node_lib \<Rightarrow> timestamp \<Rightarrow> req_user \<Rightarrow> upload_request \<Rightarrow> bool
     \<Rightarrow> (upload_file \<times> string \<times> string \<times> string) list \<Rightarrow> document list \<Rightarrow> document list
     \<Rightarrow> (string + document list) \<times> document list" where
  "uploadFiles N now requester body several [] documents uploaded = (Inr uploaded, documents)"
| "uploadFiles N now requester body several ((file, newId, randomKey, randomIV) # rest)
     documents uploaded =
     (case encryptFile N randomKey randomIV (buffer file) of
        Inl e \<Rightarrow> (Inl e, documents)
      | Inr enc \<Rightarrow>
          (let newDocument =
             \<lparr>docId = newId,
              title = (if several then upTitle body @ '' - '' @ originalname file
                       else upTitle body),
              description = (case upDescription body of None \<Rightarrow> [] | Some t \<Rightarrow> t),
              docCategory = upCategory body,
              accessLevel = upAccessLevel body,
              docFlightNumber = upFlightNumber body,
              fileName = originalname file,
              fileSize = fileSizeBytes file,
              mimeType = mimetype file,
              uploadedBy = reqEmployeeId requester,
              uploaderName = reqName requester,
              uploaderRole = reqRole requester,
              docStatus = ''active'',
              downloadCount = 0,
              expiresAt = upExpiresAt body,
              docCreatedAt = now,
              docUpdatedAt = now,
              accessLog = [\<lparr>action = ''uploaded'', logEmployeeId = reqEmployeeId requester,
                            logName = reqName requester, logTimestamp = now,
                            details = ''Document uploaded''\<rparr>],
              docEncryptedContent = encryptedContent enc,
              docEncryptionKey = key enc\<rparr>
           in uploadFiles N now requester body several rest
                (addDocument documents newDocument) (uploaded @ [newDocument])))"

definition uploadDocuments ::
  "node_lib \<Rightarrow> timestamp \<Rightarrow> document list \<Rightarrow> req_user \<Rightarrow> upload_request
     \<Rightarrow> (upload_file \<times> string \<times> string \<times> string) list
     \<Rightarrow> (error + document_public list) \<times> document list" where
  "uploadDocuments N now documents requester body files =
     (if files = [] then (Inl NO_FILES, documents)
      else if upAccessLevel body > reqClearanceLevel requester
      then (Inl INSUFFICIENT_CLEARANCE, documents)
      else case uploadFiles N now requester body (length files > 1) files documents [] of
             (Inl e, documents') \<Rightarrow> (Inl (INTERNAL_ERROR e), documents')
           | (Inr uploaded, documents') \<Rightarrow>
               (Inr (map document_public.truncate uploaded), documents'))"









text \<open>\<^verbatim>\<open>document.expiresAt && new Date() > new Date(document.expiresAt)\<close>.\<close>

definition documentExpired :: "document \<Rightarrow> timestamp \<Rightarrow> bool" where
  "documentExpired d now = (case expiresAt d of None \<Rightarrow> False | Some e \<Rightarrow> now > e)"

definition logEntryFor :: "req_user \<Rightarrow> timestamp \<Rightarrow> string \<Rightarrow> string \<Rightarrow> access_log_entry" where
  "logEntryFor requester now act det =
     \<lparr>action = act, logEmployeeId = reqEmployeeId requester, logName = reqName requester,
      logTimestamp = now, details = det\<rparr>"

text \<open>\<^verbatim>\<open>GET /documents/:id\<close>.\<close>

definition getDocument ::
  "timestamp \<Rightarrow> document list \<Rightarrow> req_user \<Rightarrow> string
     \<Rightarrow> (error + document_public) \<times> document list" where
  "getDocument now documents requester did =
     (case findDocumentById documents did of
        None \<Rightarrow> (Inl DOCUMENT_NOT_FOUND, documents)
      | Some i \<Rightarrow>
          (let d = documents ! i in
           if accessLevel d > reqClearanceLevel requester then (Inl ACCESS_DENIED, documents)
           else if documentExpired d now then (Inl DOCUMENT_EXPIRED, documents)
           else
             (let d' = d\<lparr>accessLog := accessLog d @
                           [logEntryFor requester now ''viewed'' ''Document details viewed'']\<rparr>
              in (Inr (document_public.truncate d'), fst (changeDocument documents i d')))))"

text \<open>
  \<^verbatim>\<open>GET /documents/:id/download\<close>. Nothing is written when \<^verbatim>\<open>decryptFile\<close> throws.
\<close>

record download_response =
  contentType :: string
  attachmentFileName :: string
  contentLength :: nat
  responseBody :: string

definition downloadDocument ::
  "node_lib \<Rightarrow> timestamp \<Rightarrow> document list \<Rightarrow> req_user \<Rightarrow> string
     \<Rightarrow> (error + download_response) \<times> document list" where
  "downloadDocument N now documents requester did =
     (case findDocumentById documents did of
        None \<Rightarrow> (Inl DOCUMENT_NOT_FOUND, documents)
      | Some i \<Rightarrow>
          (let d = documents ! i in
           if accessLevel d > reqClearanceLevel requester
           then (Inl DOWNLOAD_ACCESS_DENIED, documents)
           else if documentExpired d now then (Inl DOCUMENT_EXPIRED, documents)
           else
             (case decryptFile N (docEncryptedContent d) (docEncryptionKey d) of
                Inl e \<Rightarrow> (Inl DECRYPTION_FAILED, documents)
              | Inr decryptedContent \<Rightarrow>
                  (let d' = d\<lparr>downloadCount := downloadCount d + 1,
                               accessLog := accessLog d @
                                 [logEntryFor requester now ''downloaded'' ''Document downloaded''],
                               docUpdatedAt := now\<rparr>
                   in (Inr \<lparr>contentType = mimeType d', attachmentFileName = fileName d',
                             contentLength = length decryptedContent,
                             responseBody = decryptedContent\<rparr>,
                       fst (changeDocument documents i d'))))))"

text \<open>
  \<^verbatim>\<open>PUT /documents/:id\<close>. A field is assigned when the body has a truthy value for it
  (title, category, access level) or any value at all, \<^verbatim>\<open>null\<close> included (description,
  flight number, expiry).
\<close>

record update_request =
  newTitle :: "string option"
  newDescription :: "string option"
  newCategory :: "string option"
  newAccessLevel :: "int option"
  newFlightNumber :: "string option option"
  newExpiresAt :: "timestamp option option"

definition truthyNumber :: "int option \<Rightarrow> bool" where
  "truthyNumber v = (case v of None \<Rightarrow> False | Some n \<Rightarrow> n \<noteq> 0)"

definition updateDocumentRoute ::
  "timestamp \<Rightarrow> document list \<Rightarrow> req_user \<Rightarrow> string \<Rightarrow> update_request
     \<Rightarrow> (error + document_public) \<times> document list" where
  "updateDocumentRoute now documents requester did body =
     (case findDocumentById documents did of
        None \<Rightarrow> (Inl DOCUMENT_NOT_FOUND, documents)
      | Some i \<Rightarrow>
          (let d = documents ! i in
           if uploadedBy d \<noteq> reqEmployeeId requester \<and> reqClearanceLevel requester < 4
           then (Inl UPDATE_ACCESS_DENIED, documents)
           else if truthyNumber (newAccessLevel body) \<and>
                   the (newAccessLevel body) > reqClearanceLevel requester
           then (Inl INSUFFICIENT_CLEARANCE, documents)
           else
             (let d1 = (if truthy (newTitle body) then d\<lparr>title := the (newTitle body)\<rparr> else d);
                  d2 = (case newDescription body of None \<Rightarrow> d1
                        | Some t \<Rightarrow> d1\<lparr>description := t\<rparr>);
                  d3 = (if truthy (newCategory body)
                        then d2\<lparr>docCategory := the (newCategory body)\<rparr> else d2);
                  d4 = (if truthyNumber (newAccessLevel body)
                        then d3\<lparr>accessLevel := the (newAccessLevel body)\<rparr> else d3);
                  d5 = (case newFlightNumber body of None \<Rightarrow> d4
                        | Some f \<Rightarrow> d4\<lparr>docFlightNumber := f\<rparr>);
                  d6 = (case newExpiresAt body of None \<Rightarrow> d5
                        | Some e \<Rightarrow> d5\<lparr>expiresAt := e\<rparr>);
                  d7 = d6\<lparr>docUpdatedAt := now,
                           accessLog := accessLog d6 @
                             [logEntryFor requester now ''updated'' ''Document metadata updated'']\<rparr>
              in (Inr (document_public.truncate d7), fst (changeDocument documents i d7)))))"

text \<open>\<^verbatim>\<open>DELETE /documents/:id\<close>: a soft delete by the uploader or by clearance 5.\<close>

definition deleteDocumentRoute ::
  "timestamp \<Rightarrow> document list \<Rightarrow> req_user \<Rightarrow> string \<Rightarrow> (error + unit) \<times> document list" where
  "deleteDocumentRoute now documents requester did =
     (case findDocumentById documents did of
        None \<Rightarrow> (Inl DOCUMENT_NOT_FOUND, documents)
      | Some i \<Rightarrow>
          (let d = documents ! i in
           if uploadedBy d \<noteq> reqEmployeeId requester \<and> reqClearanceLevel requester < 5
           then (Inl DELETE_ACCESS_DENIED, documents)
           else
             (let d' = d\<lparr>docStatus := ''deleted'', docUpdatedAt := now,
                          accessLog := accessLog d @
                            [logEntryFor requester now ''deleted'' ''Document deleted'']\<rparr>
              in (Inr (), fst (changeDocument documents i d')))))"

text \<open>Every operation of the sources that writes to the documents store.\<close>

datatype document_op =
    Upload timestamp req_user upload_request "(upload_file \<times> string \<times> string \<times> string) list"
  | View timestamp req_user string
  | Download timestamp req_user string
  | Update timestamp req_user string update_request
  | Delete timestamp req_user string
  | DeleteDocument timestamp string
  | LogDocumentAccess timestamp string string req_user string
  | CleanupExpiredDocuments timestamp

fun applyDocumentOp :: "node_lib \<Rightarrow> document list \<Rightarrow> document_op \<Rightarrow> document list" where
  "applyDocumentOp N documents (Upload now requester body files) =
     snd (uploadDocuments N now documents requester body files)"
| "applyDocumentOp N documents (View now requester did) =
     snd (getDocument now documents requester did)"
| "applyDocumentOp N documents (Download now requester did) =
     snd (downloadDocument N now documents requester did)"
| "applyDocumentOp N documents (Update now requester did body) =
     snd (updateDocumentRoute now documents requester did body)"
| "applyDocumentOp N documents (Delete now requester did) =
     snd (deleteDocumentRoute now documents requester did)"
| "applyDocumentOp N documents (DeleteDocument now did) =
     fst (deleteDocument now documents did)"
| "applyDocumentOp N documents (LogDocumentAccess now did act requester det) =
     fst (logDocumentAccess now documents did act requester det)"
| "applyDocumentOp N documents (CleanupExpiredDocuments now) =
     fst (cleanupExpiredDocuments now documents)"

text \<open>The array \<^verbatim>\<open>documents\<close> as the module initialises it.\<close>

definition documents0 :: "document list" where
  "documents0 =
  [\<lparr>docId = ''doc-001'', title = ''AA1234 Flight Plan'',
     description = ''Complete flight plan for AA1234 from JFK to LAX'',
     docCategory = ''flight-plan'', accessLevel = 4, docFlightNumber = Some ''AA1234'',
     fileName = ''AA1234-flight-plan.pdf'', fileSize = 2458621,
     mimeType = ''application/pdf'',
     uploadedBy = ''AA12349'', uploaderName = ''Dispatcher Jennifer Wilson'',
     uploaderRole = ''dispatcher'', docStatus = ''active'', downloadCount = 3,
     expiresAt = None, docCreatedAt = 1705320000000, docUpdatedAt = 1705320000000,
     accessLog =
       [\<lparr>action = ''uploaded'', logEmployeeId = ''AA12349'', logName = ''Dispatcher Jennifer Wilson'',
          logTimestamp = 1705320000000, details = ''Document uploaded''\<rparr>,
        \<lparr>action = ''downloaded'', logEmployeeId = ''AA12345'', logName = ''Captain Sarah Johnson'',
          logTimestamp = 1705324500000, details = ''Document downloaded''\<rparr>],
     docEncryptedContent = ''encrypted_content_base64_string_here'',
     docEncryptionKey = ''encryption_key_base64_here''\<rparr>,
   \<lparr>docId = ''doc-002'', title = ''Weather Report - Chicago Area'',
     description = ''Current weather conditions and forecast for Chicago airspace'',
     docCategory = ''weather'', accessLevel = 1, docFlightNumber = Some ''AA1234'',
     fileName = ''chicago-weather-report.pdf'', fileSize = 1024576,
     mimeType = ''application/pdf'',
     uploadedBy = ''AA12349'', uploaderName = ''Dispatcher Jennifer Wilson'',
     uploaderRole = ''dispatcher'', docStatus = ''active'', downloadCount = 5,
     expiresAt = Some 1705406400000, docCreatedAt = 1705318200000, docUpdatedAt = 1705318200000,
     accessLog =
       [\<lparr>action = ''uploaded'', logEmployeeId = ''AA12349'', logName = ''Dispatcher Jennifer Wilson'',
          logTimestamp = 1705318200000, details = ''Document uploaded''\<rparr>],
     docEncryptedContent = ''encrypted_weather_content_base64_string_here'',
     docEncryptionKey = ''weather_encryption_key_base64_here''\<rparr>,
   \<lparr>docId = ''doc-003'', title = ''Aircraft Maintenance Log - N123AA'',
     description = ''Maintenance inspection report for aircraft N123AA'',
     docCategory = ''maintenance'', accessLevel = 3, docFlightNumber = Some ''AA1234'',
     fileName = ''N123AA-maintenance-log.xlsx'', fileSize = 512000,
     mimeType = ''application/vnd.openxmlformats-officedocument.spreadsheetml.sheet'',
     uploadedBy = ''AA12350'', uploaderName = ''Maintenance Chief Tom Anderson'',
     uploaderRole = ''maintenance'', docStatus = ''active'', downloadCount = 2,
     expiresAt = None, docCreatedAt = 1705312800000, docUpdatedAt = 1705312800000,
     accessLog =
       [\<lparr>action = ''uploaded'', logEmployeeId = ''AA12350'', logName = ''Maintenance Chief Tom Anderson'',
          logTimestamp = 1705312800000, details = ''Document uploaded''\<rparr>],
     docEncryptedContent = ''encrypted_maintenance_content_base64_string_here'',
     docEncryptionKey = ''maintenance_encryption_key_base64_here''\<rparr>,
   \<lparr>docId = ''doc-004'', title = ''Crew Manifest - AA1234'',
     description = ''Complete crew assignments and contact information for flight AA1234'',
     docCategory = ''crew-manifest'', accessLevel = 2, docFlightNumber = Some ''AA1234'',
     fileName = ''AA1234-crew-manifest.docx'', fileSize = 256000,
     mimeType = ''application/vnd.openxmlformats-officedocument.wordprocessingml.document'',
     uploadedBy = ''AA12348'', uploaderName = ''Gate Agent Robert Davis'',
     uploaderRole = ''gate-agent'', docStatus = ''active'', downloadCount = 4,
     expiresAt = Some 1705449600000, docCreatedAt = 1705309200000, docUpdatedAt = 1705309200000,
     accessLog =
       [\<lparr>action = ''uploaded'', logEmployeeId = ''AA12348'', logName = ''Gate Agent Robert Davis'',
          logTimestamp = 1705309200000, details = ''Document uploaded''\<rparr>],
     docEncryptedContent = ''encrypted_crew_content_base64_string_here'',
     docEncryptionKey = ''crew_encryption_key_base64_here''\<rparr>,
   \<lparr>docId = ''doc-005'', title = ''Safety Briefing - Winter Operations'',
     description = ''Updated safety procedures for winter weather operations'',
     docCategory = ''safety'', accessLevel = 1, docFlightNumber = None,
     fileName = ''winter-operations-safety.pdf'', fileSize = 3072000,
     mimeType = ''application/pdf'',
     uploadedBy = ''AA12351'', uploaderName = ''Safety Officer Maria Garcia'',
     uploaderRole = ''safety-officer'', docStatus = ''active'', downloadCount = 12,
     expiresAt = Some 1709251200000, docCreatedAt = 1704873600000, docUpdatedAt = 1704873600000,
     accessLog =
       [\<lparr>action = ''uploaded'', logEmployeeId = ''AA12351'', logName = ''Safety Officer Maria Garcia'',
          logTimestamp = 1704873600000, details = ''Document uploaded''\<rparr>],
     docEncryptedContent = ''encrypted_safety_content_base64_string_here'',
     docEncryptionKey = ''safety_encryption_key_base64_here''\<rparr>]"

subsection \<open>Token verification and the blacklist (utils/jwt)\<close>

definition jwtErrorMessage :: "jwt_error \<Rightarrow> string" where
  "jwtErrorMessage e =
     (case e of TokenExpiredError \<Rightarrow> ''jwt expired''
              | JsonWebTokenError m \<Rightarrow> m
              | OtherError m \<Rightarrow> m)"

definition payloadEmployeeId :: "jwt_payload \<Rightarrow> string" where
  "payloadEmployeeId p =
     (case p of AccessPayload eid n r d c a \<Rightarrow> eid | RefreshPayload eid t tid \<Rightarrow> eid)"

definition payloadType :: "jwt_payload \<Rightarrow> string option" where
  "payloadType p =
     (case p of AccessPayload eid n r d c a \<Rightarrow> None | RefreshPayload eid t tid \<Rightarrow> Some t)"

text \<open>
  \<^verbatim>\<open>verifyAccessToken\<close>: \<^verbatim>\<open>jwt.verify\<close> with the access secret, the issuer and the
  audience; an error is thrown again with a prefix. Nothing else is looked at.
\<close>

definition verifyAccessToken :: "libs \<Rightarrow> process_env \<Rightarrow> timestamp \<Rightarrow> string \<Rightarrow> string + jwt_payload" where
  "verifyAccessToken L env now token =
     (case jwtVerify L now token (JWT_SECRET env)
             \<lparr>verifyIssuer = Some ''aviation-crew-api'',
              verifyAudience = Some ''aviation-crew''\<rparr> of
        Inr decoded \<Rightarrow> Inr decoded
      | Inl e \<Rightarrow> Inl (''Invalid access token: '' @ jwtErrorMessage e))"

definition verifyRefreshToken :: "libs \<Rightarrow> process_env \<Rightarrow> timestamp \<Rightarrow> string \<Rightarrow> string + jwt_payload" where
  "verifyRefreshToken L env now token =
     (case jwtVerify L now token (orElse (JWT_REFRESH_SECRET env) (JWT_SECRET env))
             \<lparr>verifyIssuer = Some ''aviation-crew-api'',
              verifyAudience = Some ''aviation-crew''\<rparr> of
        Inr decoded \<Rightarrow>
          (if payloadType decoded \<noteq> Some ''refresh''
           then Inl ''Invalid refresh token: Invalid token type''
           else Inr decoded)
      | Inl e \<Rightarrow> Inl (''Invalid refresh token: '' @ jwtErrorMessage e))"

text \<open>
  \<^verbatim>\<open>getTokenExpiration\<close>: the \<^verbatim>\<open>exp\<close> claim as a date, \<^verbatim>\<open>null\<close> when it is missing
  or 0.
\<close>

definition getTokenExpiration :: "libs \<Rightarrow> string \<Rightarrow> timestamp option" where
  "getTokenExpiration L token =
     (case jwtDecodeExp L token of
        None \<Rightarrow> None
      | Some e \<Rightarrow> (if e = 0 then None else Some (e * 1000)))"

text \<open>
  \<^verbatim>\<open>global.tokenBlacklist\<close> is undefined (\<open>None\<close>) until the first call of
  \<^verbatim>\<open>blacklistToken\<close>, and a \<^verbatim>\<open>Map\<close> from token to expiry afterwards.
\<close>

type_synonym blacklist = "(string \<rightharpoonup> timestamp) option"

definition cleanupBlacklist :: "timestamp \<Rightarrow> blacklist \<Rightarrow> blacklist" where
  "cleanupBlacklist now bl =
     (case bl of
        None \<Rightarrow> None
      | Some m \<Rightarrow>
          Some (\<lambda>t. case m t of None \<Rightarrow> None
                     | Some expiry \<Rightarrow> (if now > expiry then None else Some expiry)))"

definition blacklistToken ::
  "libs \<Rightarrow> timestamp \<Rightarrow> blacklist \<Rightarrow> string \<Rightarrow> timestamp option \<Rightarrow> blacklist" where
  "blacklistToken L now bl token expiresAtArg =
     (let m = (case bl of None \<Rightarrow> Map.empty | Some m \<Rightarrow> m);
          expiry = (case expiresAtArg of
                      Some e \<Rightarrow> e
                    | None \<Rightarrow>
                        (case getTokenExpiration L token of
                           Some e \<Rightarrow> e
                         | None \<Rightarrow> now + 24 * 60 * 60 * 1000))
      in cleanupBlacklist now (Some (m(token \<mapsto> expiry))))"

text \<open>\<^verbatim>\<open>isTokenBlacklisted\<close> removes the entry that it finds expired.\<close>

definition isTokenBlacklisted :: "timestamp \<Rightarrow> blacklist \<Rightarrow> string \<Rightarrow> bool \<times> blacklist" where
  "isTokenBlacklisted now bl token =
     (case bl of
        None \<Rightarrow> (False, bl)
      | Some m \<Rightarrow>
          (case m token of
             None \<Rightarrow> (False, bl)
           | Some expiry \<Rightarrow>
               (if now > expiry then (False, Some (m(token := None)))
                else (True, bl))))"

subsection \<open>Authentication middleware (middleware/auth)\<close>

text \<open>
  \<^verbatim>\<open>authHeader && authHeader.split(' ')[1]\<close>, when it is truthy: the second of the parts
  of the header.
\<close>

definition headerToken :: "string option \<Rightarrow> string option" where
  "headerToken authHeader =
     (case authHeader of
        None \<Rightarrow> None
      | Some h \<Rightarrow>
          (if h = [] then None
           else (let parts = splitOn CHR '' '' h
                 in if length parts < 2 \<or> parts ! 1 = [] then None else Some (parts ! 1))))"

text \<open>
  The middleware answers with a status and a code, or attaches the user to the request
  and calls \<^verbatim>\<open>next()\<close>. It calls \<^verbatim>\<open>jwt.verify\<close> with the secret and no other option.
\<close>

datatype auth_result = Next req_user | Respond nat string

definition authenticateToken ::
  "libs \<Rightarrow> process_env \<Rightarrow> timestamp \<Rightarrow> user list \<Rightarrow> string option \<Rightarrow> auth_result" where
  "authenticateToken L env now users authHeader =
     (case headerToken authHeader of
        None \<Rightarrow> Respond 401 ''NO_TOKEN''
      | Some token \<Rightarrow>
          (case jwtVerify L now token (JWT_SECRET env)
                  \<lparr>verifyIssuer = None, verifyAudience = None\<rparr> of
             Inr decoded \<Rightarrow>
               (case findUserByEmployeeId users (payloadEmployeeId decoded) of
                  None \<Rightarrow> Respond 401 ''USER_NOT_FOUND''
                | Some i \<Rightarrow>
                    (let u = users ! i in
                     if \<not> isActive u then Respond 401 ''ACCOUNT_DEACTIVATED''
                     else Next \<lparr>reqEmployeeId = employeeId u, reqName = userName u,
                                reqRole = role u, reqDepartment = department u,
                                reqClearanceLevel = clearanceLevel u,
                                reqAirline = airline u\<rparr>))
           | Inl TokenExpiredError \<Rightarrow> Respond 401 ''TOKEN_EXPIRED''
           | Inl (JsonWebTokenError m) \<Rightarrow> Respond 401 ''INVALID_TOKEN''
           | Inl (OtherError m) \<Rightarrow> Respond 500 ''AUTH_ERROR''))"

text \<open>
  \<^verbatim>\<open>optionalAuth\<close> always calls \<^verbatim>\<open>next()\<close>; the result is \<^verbatim>\<open>req.user\<close>, which it
  attaches when the header carries a token that \<^verbatim>\<open>jwt.verify\<close> accepts and whose user
  exists and is active. \<open>requestUser\<close> is the object that both middlewares attach.
\<close>

definition requestUser :: "user \<Rightarrow> req_user" where
  "requestUser u =
     \<lparr>reqEmployeeId = employeeId u, reqName = userName u, reqRole = role u,
      reqDepartment = department u, reqClearanceLevel = clearanceLevel u,
      reqAirline = airline u\<rparr>"

definition optionalAuth ::
  "libs \<Rightarrow> process_env \<Rightarrow> timestamp \<Rightarrow> user list \<Rightarrow> string option \<Rightarrow> req_user option" where
  "optionalAuth L env now users authHeader =
     (case headerToken authHeader of
        None \<Rightarrow> None
      | Some token \<Rightarrow>
          (case jwtVerify L now token (JWT_SECRET env)
                  \<lparr>verifyIssuer = None, verifyAudience = None\<rparr> of
             Inr decoded \<Rightarrow>
               (case findUserByEmployeeId users (payloadEmployeeId decoded) of
                  None \<Rightarrow> None
                | Some i \<Rightarrow>
                    (if isActive (users ! i) then Some (requestUser (users ! i)) else None))
           | Inl e \<Rightarrow> None))"

text \<open>\<^verbatim>\<open>POST /auth/logout\<close> answers with success and leaves the blacklist alone.\<close>

definition logout :: "blacklist \<Rightarrow> req_user \<Rightarrow> (error + unit) \<times> blacklist" where
  "logout bl requester = (Inr (), bl)"

subsection \<open>Sequences of requests\<close>

text \<open>The user object that \<^verbatim>\<open>findUserByEmployeeId\<close> returns.\<close>

definition lookupUser :: "user list \<Rightarrow> string \<Rightarrow> user option" where
  "lookupUser users eid = map_option (\<lambda>i. users ! i) (findUserByEmployeeId users eid)"

text \<open>
  Consecutive login requests for one employee id, each with its time, the random
  token id of that request and the presented password.
\<close>

fun loginAll ::
  "libs \<Rightarrow> process_env \<Rightarrow> user list \<Rightarrow> string \<Rightarrow> (timestamp \<times> string \<times> string) list
     \<Rightarrow> (error + login_response) list \<times> user list" where
  "loginAll L env users eid [] = ([], users)"
| "loginAll L env users eid ((now, randomUUID, pw) # rest) =
     (let (r, users') = login L env now randomUUID users eid pw;
          (rs, users'') = loginAll L env users' eid rest
      in (r # rs, users''))"







subsection \<open>The initial users store and stand-ins for the libraries\<close>

text \<open>The array \<^verbatim>\<open>users\<close> as the module initialises it.\<close>

definition users0 :: "user list" where
  "users0 =
  [\<lparr>userId = ''user-001'', employeeId = ''AA12345'',
     userName = ''Captain Sarah Johnson'', role = ''pilot'',
     department = ''flight-operations'', clearanceLevel = 5,
     airline = ''American Airlines'', isActive = True,
     userCreatedAt = 1705305600000, userUpdatedAt = 1705305600000, lastLoginAt = None,
     failedLoginAttempts = 0, accountLockedUntil = None,
     password = ''$2b$12$LQv3c1yqBWVHxkd0LHAkCOYz6TtxMQJqhN8/LewdBPj6hsbtws5Lm''\<rparr>,
   \<lparr>userId = ''user-002'', employeeId = ''AA12346'',
     userName = ''First Officer Mike Chen'', role = ''co-pilot'',
     department = ''flight-operations'', clearanceLevel = 4,
     airline = ''American Airlines'', isActive = True,
     userCreatedAt = 1705307400000, userUpdatedAt = 1705307400000, lastLoginAt = None,
     failedLoginAttempts = 0, accountLockedUntil = None,
     password = ''$2b$12$LQv3c1yqBWVHxkd0LHAkCOYz6TtxMQJqhN8/LewdBPj6hsbtws5Lm''\<rparr>,
   \<lparr>userId = ''user-003'', employeeId = ''AA12347'',
     userName = ''Flight Attendant Lisa Martinez'', role = ''flight-attendant'',
     department = ''cabin-crew'', clearanceLevel = 2,
     airline = ''American Airlines'', isActive = True,
     userCreatedAt = 1705309200000, userUpdatedAt = 1705309200000, lastLoginAt = None,
     failedLoginAttempts = 0, accountLockedUntil = None,
     password = ''$2b$12$LQv3c1yqBWVHxkd0LHAkCOYz6TtxMQJqhN8/LewdBPj6hsbtws5Lm''\<rparr>,
   \<lparr>userId = ''user-004'', employeeId = ''AB12345'',
     userName = ''Demo Test Pilot'', role = ''pilot'',
     department = ''flight-operations'', clearanceLevel = 5,
     airline = ''Demo Airlines'', isActive = True,
     userCreatedAt = 1753912800000, userUpdatedAt = 1753912800000, lastLoginAt = None,
     failedLoginAttempts = 0, accountLockedUntil = None,
     password = ''$2b$12$.ndLzxB/aSLpsgfPxeRiqeXlinsTcL5b3dJZ/wx4XUvX/QgblU.36''\<rparr>,
   \<lparr>userId = ''user-005'', employeeId = ''AA12348'',
     userName = ''Gate Agent Robert Davis'', role = ''gate-agent'',
     department = ''ground-operations'', clearanceLevel = 2,
     airline = ''American Airlines'', isActive = True,
     userCreatedAt = 1705311000000, userUpdatedAt = 1705311000000, lastLoginAt = None,
     failedLoginAttempts = 0, accountLockedUntil = None,
     password = ''$2b$12$LQv3c1yqBWVHxkd0LHAkCOYz6TtxMQJqhN8/LewdBPj6hsbtws5Lm''\<rparr>,
   \<lparr>userId = ''user-006'', employeeId = ''AA12349'',
     userName = ''Dispatcher Jennifer Wilson'', role = ''dispatcher'',
     department = ''dispatch'', clearanceLevel = 4,
     airline = ''American Airlines'', isActive = True,
     userCreatedAt = 1705312800000, userUpdatedAt = 1705312800000, lastLoginAt = None,
     failedLoginAttempts = 0, accountLockedUntil = None,
     password = ''$2b$12$LQv3c1yqBWVHxkd0LHAkCOYz6TtxMQJqhN8/LewdBPj6hsbtws5Lm''\<rparr>,
   \<lparr>userId = ''user-006'', employeeId = ''DL54321'',
     userName = ''Captain James Thompson'', role = ''pilot'',
     department = ''flight-operations'', clearanceLevel = 5,
     airline = ''Delta Air Lines'', isActive = True,
     userCreatedAt = 1705314600000, userUpdatedAt = 1705314600000, lastLoginAt = None,
     failedLoginAttempts = 0, accountLockedUntil = None,
     password = ''$2b$12$LQv3c1yqBWVHxkd0LHAkCOYz6TtxMQJqhN8/LewdBPj6hsbtws5Lm''\<rparr>,
   \<lparr>userId = ''user-007'', employeeId = ''UA98765'',
     userName = ''Ground Crew Lead Mark Rodriguez'', role = ''ground-crew'',
     department = ''ground-operations'', clearanceLevel = 3,
     airline = ''United Airlines'', isActive = True,
     userCreatedAt = 1705316400000, userUpdatedAt = 1705316400000, lastLoginAt = None,
     failedLoginAttempts = 0, accountLockedUntil = None,
     password = ''$2b$12$LQv3c1yqBWVHxkd0LHAkCOYz6TtxMQJqhN8/LewdBPj6hsbtws5Lm''\<rparr>]"

text \<open>
  Stand-ins for the libraries, for evaluating the model on concrete requests. The
  password comparison knows the one seeded hash whose password is known, that of
  \<^verbatim>\<open>user-004\<close> (\<^verbatim>\<open>SecurePass123!\<close>), and what \<open>bcryptHash\<close> of the stand-in
  produces; every other pair does not match. The hash that the other seeded users
  share is not a hash of \<^verbatim>\<open>password123\<close>, whatever the comment beside it says.
  Signing and verifying need a secret that is not empty, as \<^verbatim>\<open>jwt.sign\<close> and
  \<^verbatim>\<open>jwt.verify\<close> do; the one token that verifies carries the claims of the seeded
  captain and expires at 1705330900 (in seconds).
\<close>

definition standInLibs :: libs where
  "standInLibs =
     \<lparr>bcryptCompare = (\<lambda>pw h.
          (pw = ''SecurePass123!'' \<and>
             h = ''$2b$12$.ndLzxB/aSLpsgfPxeRiqeXlinsTcL5b3dJZ/wx4XUvX/QgblU.36'') \<or>
          h = ''$2b$12$'' @ pw),
      bcryptHash = (\<lambda>pw rounds. ''$2b$12$'' @ pw),
      jwtSign = (\<lambda>payload secret opts.
          case secret of
            None \<Rightarrow> Inl ''secretOrPrivateKey must have a value''
          | Some s \<Rightarrow> (if s = [] then Inl ''secretOrPrivateKey must have a value''
                      else Inr ''header.payload.signature'')),
      jwtVerify = (\<lambda>now token secret opts.
          if secret = None \<or> secret = Some []
          then Inl (JsonWebTokenError ''secret or public key must be provided'')
          else if token \<noteq> ''header.payload.signature''
          then Inl (JsonWebTokenError ''invalid signature'')
          else if now div 1000 \<ge> 1705330900 then Inl TokenExpiredError
          else Inr (AccessPayload ''AA12345'' ''Captain Sarah Johnson'' ''pilot''
                      ''flight-operations'' 5 ''American Airlines'')),
      jwtDecodeExp = (\<lambda>token.
          if token = ''header.payload.signature'' then Some 1705330900 else None)\<rparr>"

definition standInEnv :: process_env where
  "standInEnv = \<lparr>JWT_SECRET = Some ''secret'', JWT_EXPIRES_IN = None,
                  JWT_REFRESH_SECRET = None, JWT_REFRESH_EXPIRES_IN = None\<rparr>"

text \<open>Five requests with wrong passwords, one second apart.\<close>

definition fiveWrongAttempts :: "(timestamp \<times> string \<times> string) list" where
  "fiveWrongAttempts =
     [(1000, ''uuid-1'', ''wrong-1''), (2000, ''uuid-2'', ''wrong-2''),
      (3000, ''uuid-3'', ''wrong-3''), (4000, ''uuid-4'', ''wrong-4''),
      (5000, ''uuid-5'', ''wrong-5'')]"

text \<open>
  The seeded store after the five requests above for the demo pilot \<^verbatim>\<open>AB12345\<close>, the
  five requests as operations on the store, and the demo pilot's record after them:
  five failures, locked until 1805000.
\<close>

definition demoPilotLockedStore :: "user list" where
  "demoPilotLockedStore = snd (loginAll standInLibs standInEnv users0 ''AB12345'' fiveWrongAttempts)"


definition demoPilotLocked :: user where
  "demoPilotLocked =
     (users0 ! 3)\<lparr>failedLoginAttempts := 5, accountLockedUntil := Some 1805000,
                   userUpdatedAt := 5000\<rparr>"

text \<open>
  Node's crypto module has \<^verbatim>\<open>createCipheriv\<close> and \<^verbatim>\<open>createDecipheriv\<close>; it has no
  member \<^verbatim>\<open>createCipherGCM\<close> or \<^verbatim>\<open>createDecipherGCM\<close>, so that calling either
  throws a \<^verbatim>\<open>TypeError\<close>. \<open>nodeLib\<close> is the library as Node ships it. The base64
  codec does not matter for any result below; hexadecimal stands in for it.
\<close>

definition nodeLib :: node_lib where
  "nodeLib =
     \<lparr>createCipherGCM = (\<lambda>alg k iv aad plaintext.
          Inl ''crypto.createCipherGCM is not a function''),
      createDecipherGCM = (\<lambda>alg k iv aad tag ciphertext.
          Inl ''crypto.createDecipherGCM is not a function''),
      toBase64 = toHex,
      fromBase64 = fromHex\<rparr>"


text \<open>Requesters, as the authentication middleware attaches them for three seeded users.\<close>

definition captainJohnson :: req_user where
  "captainJohnson =
     \<lparr>reqEmployeeId = ''AA12345'', reqName = ''Captain Sarah Johnson'', reqRole = ''pilot'',
      reqDepartment = ''flight-operations'', reqClearanceLevel = 5,
      reqAirline = ''American Airlines''\<rparr>"

definition officerChen :: req_user where
  "officerChen =
     \<lparr>reqEmployeeId = ''AA12346'', reqName = ''First Officer Mike Chen'', reqRole = ''co-pilot'',
      reqDepartment = ''flight-operations'', reqClearanceLevel = 4,
      reqAirline = ''American Airlines''\<rparr>"

definition attendantMartinez :: req_user where
  "attendantMartinez =
     \<lparr>reqEmployeeId = ''AA12347'', reqName = ''Flight Attendant Lisa Martinez'',
      reqRole = ''flight-attendant'', reqDepartment = ''cabin-crew'', reqClearanceLevel = 2,
      reqAirline = ''American Airlines''\<rparr>"

text \<open>A request to send an encrypted message, with the random key and IV of its call.\<close>

definition sampleSend :: send_request where
  "sampleSend =
     \<lparr>sendRecipientId = ''AA12346'', sendContent = ''Boarding moved to B12'',
      sendPriority = None, sendIsEncrypted = Some True, sendFlightNumber = None,
      sendCategory = None\<rparr>"

definition sampleKey :: string where
  "sampleKey = ''0123456789abcdef0123456789abcdef''"

definition sampleIV :: string where
  "sampleIV = ''fedcba9876543210''"

definition dispatcherWilson :: req_user where
  "dispatcherWilson =
     \<lparr>reqEmployeeId = ''AA12349'', reqName = ''Dispatcher Jennifer Wilson'',
      reqRole = ''dispatcher'', reqDepartment = ''dispatch'', reqClearanceLevel = 4,
      reqAirline = ''American Airlines''\<rparr>"

text \<open>A blacklist that holds the stand-in token until 1705330900000.\<close>

definition sampleBlacklist :: blacklist where
  "sampleBlacklist = Some (Map.empty(''header.payload.signature'' \<mapsto> 1705330900000))"

section \<open>Properties\<close>

subsection \<open>Looking users up after a write\<close>

lemma findIndex_Some_iff:
  "findIndex P xs = Some i \<longleftrightarrow> i < length xs \<and> P (xs ! i) \<and> (\<forall>k<i. \<not> P (xs ! k))"
proof (induction xs arbitrary: i)
  case Nil
  then show ?case by simp
next
  case (Cons x xs)
  show ?case
  proof (cases "P x")
    case True
    then show ?thesis by (cases i) auto
  next
    case False
    show ?thesis
    proof (cases i)
      case 0
      with False show ?thesis by simp
    next
      case (Suc j)
      have "(\<forall>k<Suc j. \<not> P ((x # xs) ! k)) \<longleftrightarrow> (\<forall>k<j. \<not> P (xs ! k))"
        using False by (auto simp: less_Suc_eq_0_disj)
      with False Suc Cons.IH [of j] show ?thesis by auto
    qed
  qed
qed

lemma findIndex_None_iff: "findIndex P xs = None \<longleftrightarrow> (\<forall>x\<in>set xs. \<not> P x)"
  by (induction xs) auto

lemma findIndex_first:
  assumes "i < length xs" "P (xs ! i)"
  shows "\<exists>j\<le>i. findIndex P xs = Some j"
proof (cases "findIndex P xs")
  case None
  with assms show ?thesis by (auto simp: findIndex_None_iff)
next
  case (Some j)
  then have "\<forall>k<j. \<not> P (xs ! k)" by (simp add: findIndex_Some_iff)
  with assms(2) have "j \<le> i" by (metis not_le_imp_less)
  with Some show ?thesis by simp
qed


lemma lookupUser_index:
  "lookupUser users eid = Some u \<longleftrightarrow> (\<exists>i. findUserByEmployeeId users eid = Some i \<and> users ! i = u)"
  by (auto simp: lookupUser_def)

lemma lookupUser_employeeId: "lookupUser users eid = Some u \<Longrightarrow> employeeId u = eid"
  by (auto simp: lookupUser_def findUserByEmployeeId_def findIndex_Some_iff)

lemma mutateAndUpdate_shape:
  assumes "i < length users"
  shows "\<exists>j\<le>i. fst (mutateAndUpdate users i v) = users[i := v, j := v]"
proof -
  have "\<exists>j\<le>i. findIndex (\<lambda>u. userId u = userId v) (users[i := v]) = Some j"
    using assms by (intro findIndex_first) simp_all
  then show ?thesis
    by (auto simp: mutateAndUpdate_def updateUser_def)
qed

lemma lookup_mutateAndUpdate:
  assumes i: "findUserByEmployeeId users eid = Some i"
    and e: "employeeId u' = eid"
  shows "lookupUser (fst (mutateAndUpdate users i u')) eid = Some u'"
proof -
  let ?P = "\<lambda>u. employeeId u = eid"
  from i have il: "i < length users" and first: "\<forall>k<i. \<not> ?P (users ! k)"
    by (simp_all add: findUserByEmployeeId_def findIndex_Some_iff)
  from mutateAndUpdate_shape [OF il, of u'] obtain j
    where ji: "j \<le> i" and us2: "fst (mutateAndUpdate users i u') = users[i := u', j := u']"
    by blast
  let ?us2 = "users[i := u', j := u']"
  have "findIndex ?P ?us2 = Some j"
    unfolding findIndex_Some_iff
  proof (intro conjI allI impI)
    show "j < length ?us2" using ji il by simp
    show "?P (?us2 ! j)" using ji il e by simp
  next
    fix k assume "k < j"
    then have "?us2 ! k = users ! k" "k < i" using ji il by simp_all
    with first show "\<not> ?P (?us2 ! k)" by simp
  qed
  moreover have "?us2 ! j = u'" using ji il by simp
  ultimately show ?thesis
    by (simp add: lookupUser_def findUserByEmployeeId_def us2)
qed
























text \<open>The seeded store after five failed logins of the demo pilot.\<close>

lemma demoPilotLockedStore_eq: "demoPilotLockedStore = users0[3 := demoPilotLocked]"
  by (simp add: demoPilotLockedStore_def demoPilotLocked_def fiveWrongAttempts_def login_def
      findUserByEmployeeId_def accountIsLocked_def mutateAndUpdate_def updateUser_def
      standInLibs_def users0_def Let_def)

lemma lookup_demoPilotLockedStore:
  "lookupUser demoPilotLockedStore ''AB12345'' = Some demoPilotLocked"
  by (simp add: demoPilotLockedStore_eq lookupUser_def findUserByEmployeeId_def users0_def
      demoPilotLocked_def)





subsection \<open>Lockout after failed logins\<close>


lemma lookup_users0_captain: "lookupUser users0 ''AA12345'' = Some (hd users0)"
  by (simp add: lookupUser_def findUserByEmployeeId_def users0_def)


subsection \<open>Changing the password\<close>

text \<open>
  Claim C7, as the handler has it. For the authenticated identity, \<open>changePassword\<close>
  fails with \<open>INVALID_CURRENT_PASSWORD\<close> and leaves the store unchanged when the
  presented current password does not verify against the stored hash. Otherwise it
  succeeds and the stored user differs from the old one in exactly two fields: the
  password is the hash of the new password (cost 12) and \<open>updatedAt\<close> is the request
  time. The failed-attempts counter and the lock are what they were.
\<close>

theorem changePassword_keeps_lock_state:
  assumes u: "lookupUser users eid = Some u"
  shows "(\<not> bcryptCompare L cur (password u) \<longrightarrow>
            changePassword L now users eid cur new = (Inl INVALID_CURRENT_PASSWORD, users)) \<and>
         (bcryptCompare L cur (password u) \<longrightarrow>
            fst (changePassword L now users eid cur new) = Inr () \<and>
            lookupUser (snd (changePassword L now users eid cur new)) eid
              = Some (u\<lparr>password := bcryptHash L new 12, userUpdatedAt := now\<rparr>) \<and>
            map_option failedLoginAttempts
              (lookupUser (snd (changePassword L now users eid cur new)) eid)
              = Some (failedLoginAttempts u) \<and>
            map_option accountLockedUntil
              (lookupUser (snd (changePassword L now users eid cur new)) eid)
              = Some (accountLockedUntil u))"
proof -
  from u obtain i where i: "findUserByEmployeeId users eid = Some i" and ui: "users ! i = u"
    by (auto simp: lookupUser_index)
  let ?u' = "u\<lparr>password := bcryptHash L new 12, userUpdatedAt := now\<rparr>"
  have fail: "changePassword L now users eid cur new = (Inl INVALID_CURRENT_PASSWORD, users)"
    if "\<not> bcryptCompare L cur (password u)"
    using that i ui by (simp add: changePassword_def Let_def)
  have ok: "changePassword L now users eid cur new = (Inr (), fst (mutateAndUpdate users i ?u'))"
    if "bcryptCompare L cur (password u)"
    using that i ui by (simp add: changePassword_def Let_def)
  have look: "lookupUser (fst (mutateAndUpdate users i ?u')) eid = Some ?u'"
    using i lookupUser_employeeId [OF u] by (intro lookup_mutateAndUpdate) simp_all
  from fail ok look show ?thesis by simp
qed

theorem changePassword_keeps_lock_state_witness:
  "changePassword standInLibs 6000 demoPilotLockedStore ''AB12345'' ''password123'' ''NewPass1!''
     = (Inl INVALID_CURRENT_PASSWORD, demoPilotLockedStore) \<and>
   fst (changePassword standInLibs 6000 demoPilotLockedStore ''AB12345'' ''SecurePass123!''
          ''NewPass1!'') = Inr () \<and>
   lookupUser (snd (changePassword standInLibs 6000 demoPilotLockedStore ''AB12345''
                      ''SecurePass123!'' ''NewPass1!'')) ''AB12345''
     = Some (demoPilotLocked\<lparr>password := ''$2b$12$NewPass1!'', userUpdatedAt := 6000\<rparr>)"
proof -
  have w: "\<not> bcryptCompare standInLibs ''password123'' (password demoPilotLocked)"
    and r: "bcryptCompare standInLibs ''SecurePass123!'' (password demoPilotLocked)"
    by (simp_all add: standInLibs_def demoPilotLocked_def users0_def)
  have hash: "bcryptHash standInLibs ''NewPass1!'' 12 = ''$2b$12$NewPass1!''"
    by (simp add: standInLibs_def)
  from changePassword_keeps_lock_state
         [OF lookup_demoPilotLockedStore, of standInLibs "''password123''" 6000 "''NewPass1!''"] w
  have a: "changePassword standInLibs 6000 demoPilotLockedStore ''AB12345'' ''password123''
             ''NewPass1!'' = (Inl INVALID_CURRENT_PASSWORD, demoPilotLockedStore)"
    by simp
  from changePassword_keeps_lock_state
         [OF lookup_demoPilotLockedStore, of standInLibs "''SecurePass123!''" 6000 "''NewPass1!''"] r
  have "fst (changePassword standInLibs 6000 demoPilotLockedStore ''AB12345'' ''SecurePass123!''
          ''NewPass1!'') = Inr () \<and>
   lookupUser (snd (changePassword standInLibs 6000 demoPilotLockedStore ''AB12345''
                      ''SecurePass123!'' ''NewPass1!'')) ''AB12345''
     = Some (demoPilotLocked\<lparr>password := ''$2b$12$NewPass1!'', userUpdatedAt := 6000\<rparr>)"
    by (simp add: hash)
  with a show ?thesis by simp
qed

text \<open>
  The claim as stated fails. The demo pilot has failed five times and is locked until
  1805000; the pilot then changes the password, presenting the current one
  (\<^verbatim>\<open>SecurePass123!\<close>). The change succeeds, the counter is still 5 and the lock is
  still set.
\<close>

theorem changePassword_resets_counterexample:
  "map_option failedLoginAttempts (lookupUser demoPilotLockedStore ''AB12345'') = Some 5 \<and>
   map_option accountLockedUntil (lookupUser demoPilotLockedStore ''AB12345'')
     = Some (Some 1805000) \<and>
   fst (changePassword standInLibs 6000 demoPilotLockedStore ''AB12345'' ''SecurePass123!''
          ''NewPass1!'') = Inr () \<and>
   map_option failedLoginAttempts
     (lookupUser (snd (changePassword standInLibs 6000 demoPilotLockedStore ''AB12345''
                         ''SecurePass123!'' ''NewPass1!'')) ''AB12345'') = Some 5 \<and>
   map_option accountLockedUntil
     (lookupUser (snd (changePassword standInLibs 6000 demoPilotLockedStore ''AB12345''
                         ''SecurePass123!'' ''NewPass1!'')) ''AB12345'') = Some (Some 1805000)"
  by (simp add: demoPilotLockedStore_eq changePassword_def findUserByEmployeeId_def
      mutateAndUpdate_def updateUser_def lookupUser_def demoPilotLocked_def users0_def
      standInLibs_def)

subsection \<open>What resets the failed-attempts counter\<close>




subsection \<open>Reading, deleting and storing messages\<close>

lemma updateMessage_at:
  assumes "findMessageById messages mid = Some i" "msgId m' = mid"
  shows "updateMessage (messages[i := m']) m' = (messages[i := m'], True)"
proof -
  from assms(1) have i: "i < length messages" "msgId (messages ! i) = mid"
    "\<forall>k<i. msgId (messages ! k) \<noteq> mid"
    by (simp_all add: findMessageById_def findIndex_Some_iff)
  have "findIndex (\<lambda>m. msgId m = msgId m') (messages[i := m']) = Some i"
    unfolding findIndex_Some_iff using i assms(2) by simp
  then show ?thesis by (simp add: updateMessage_def)
qed

lemma flight_listing_whole:
  assumes "reqRole requester \<in> set [''pilot'', ''co-pilot'', ''dispatcher'']"
    and "length (findMessagesByFlight messages flightNumber) \<le> limit"
  shows "\<exists>r. getFlightMessages messages requester flightNumber 1 limit = Inr r \<and>
             set (listedMessages r) = processedMessage ` set (findMessagesByFlight messages flightNumber)"
  using assms by (simp add: getFlightMessages_def requireRole_def Let_def)

text \<open>
  Claim C5, as the handlers have it. For a message that is in the store, the read by
  id (\<^verbatim>\<open>GET /messages/:id\<close>) answers a requester who is neither its sender nor its
  recipient with \<open>MESSAGE_ACCESS_DENIED\<close>, whatever clearance level the requester
  has, and leaves the store as it was. It answers the sender with the stored message
  without the key and the original content, and the recipient with the same, the
  content decrypted when the message is encrypted (or a marker when decryption
  throws), after stamping \<open>readAt\<close> at the first read. The flight listing
  (\<^verbatim>\<open>GET /messages/flight/:flightNumber\<close>) is a second way of reading a message: it
  refuses every role but pilot, co-pilot and dispatcher, and to a requester with one of
  these roles it lists every message of the flight, whoever sent or received it, with
  the stored content unless the message is encrypted, in which case the content is the
  marker \<^verbatim>\<open>[Encrypted Message]\<close>.
\<close>

theorem message_read_by_id_and_by_flight:
  assumes "findMessageById messages mid = Some i"
  shows "(reqEmployeeId requester \<noteq> senderId (messages ! i) \<and>
          reqEmployeeId requester \<noteq> recipientId (messages ! i) \<longrightarrow>
            (\<forall>c. getMessage N now messages (requester\<lparr>reqClearanceLevel := c\<rparr>) mid
                   = (Inl MESSAGE_ACCESS_DENIED, messages))) \<and>
         (reqEmployeeId requester = senderId (messages ! i) \<and>
          reqEmployeeId requester \<noteq> recipientId (messages ! i) \<longrightarrow>
            getMessage N now messages requester mid
              = (Inr (message_public.truncate (messages ! i)), messages)) \<and>
         (reqEmployeeId requester = recipientId (messages ! i) \<longrightarrow>
            getMessage N now messages requester mid
              = (let m = messages ! i;
                     m' = (if readAt m = None then m\<lparr>readAt := Some now, msgUpdatedAt := now\<rparr>
                           else m)
                 in (Inr (if isEncrypted m \<and> truthy (encryptionKey m)
                          then (case decryptMessage N (content m) (the (encryptionKey m)) of
                                  Inr decrypted \<Rightarrow>
                                    (message_public.truncate m')\<lparr>content := decrypted\<rparr>
                                | Inl e \<Rightarrow>
                                    (message_public.truncate m')
                                      \<lparr>content := ''[Encrypted message - decryption failed]''\<rparr>)
                          else message_public.truncate m'),
                     if readAt m = None then messages[i := m'] else messages))) \<and>
         (reqRole requester \<notin> set [''pilot'', ''co-pilot'', ''dispatcher''] \<longrightarrow>
            getFlightMessages messages requester flightNumber page limit = Inl INSUFFICIENT_ROLE) \<and>
         (reqRole requester \<in> set [''pilot'', ''co-pilot'', ''dispatcher''] \<and>
          msgFlightNumber (messages ! i) = Some flightNumber \<and>
          length (findMessagesByFlight messages flightNumber) \<le> limit \<longrightarrow>
            (\<exists>r. getFlightMessages messages requester flightNumber 1 limit = Inr r \<and>
                 processedMessage (messages ! i) \<in> set (listedMessages r) \<and>
                 content (processedMessage (messages ! i))
                   = (if isEncrypted (messages ! i) then ''[Encrypted Message]''
                      else content (messages ! i))))"
proof (intro conjI impI allI)
  fix c
  assume "reqEmployeeId requester \<noteq> senderId (messages ! i) \<and>
          reqEmployeeId requester \<noteq> recipientId (messages ! i)"
  with assms show "getMessage N now messages (requester\<lparr>reqClearanceLevel := c\<rparr>) mid
                   = (Inl MESSAGE_ACCESS_DENIED, messages)"
    by (auto simp: getMessage_def Let_def)
next
  assume "reqEmployeeId requester = senderId (messages ! i) \<and>
          reqEmployeeId requester \<noteq> recipientId (messages ! i)"
  with assms show "getMessage N now messages requester mid
              = (Inr (message_public.truncate (messages ! i)), messages)"
    by (auto simp: getMessage_def Let_def)
next
  assume r: "reqEmployeeId requester = recipientId (messages ! i)"
  let ?m = "messages ! i"
  let ?m' = "?m\<lparr>readAt := Some now, msgUpdatedAt := now\<rparr>"
  from assms have id: "msgId ?m' = mid"
    by (simp add: findMessageById_def findIndex_Some_iff)
  note upd = updateMessage_at [OF assms id]
  show "getMessage N now messages requester mid
              = (let m = messages ! i;
                     m' = (if readAt m = None then m\<lparr>readAt := Some now, msgUpdatedAt := now\<rparr>
                           else m)
                 in (Inr (if isEncrypted m \<and> truthy (encryptionKey m)
                          then (case decryptMessage N (content m) (the (encryptionKey m)) of
                                  Inr decrypted \<Rightarrow>
                                    (message_public.truncate m')\<lparr>content := decrypted\<rparr>
                                | Inl e \<Rightarrow>
                                    (message_public.truncate m')
                                      \<lparr>content := ''[Encrypted message - decryption failed]''\<rparr>)
                          else message_public.truncate m'),
                     if readAt m = None then messages[i := m'] else messages))"
  proof (cases "readAt ?m = None")
    case True
    with assms r upd show ?thesis by (simp add: getMessage_def Let_def)
  next
    case False
    then obtain t where "readAt ?m = Some t" by auto
    with assms r show ?thesis by (simp add: getMessage_def Let_def)
  qed
next
  assume "reqRole requester \<notin> set [''pilot'', ''co-pilot'', ''dispatcher'']"
  then show "getFlightMessages messages requester flightNumber page limit = Inl INSUFFICIENT_ROLE"
    by (simp add: getFlightMessages_def requireRole_def)
next
  assume a: "reqRole requester \<in> set [''pilot'', ''co-pilot'', ''dispatcher''] \<and>
          msgFlightNumber (messages ! i) = Some flightNumber \<and>
          length (findMessagesByFlight messages flightNumber) \<le> limit"
  from assms have "i < length messages" by (simp add: findMessageById_def findIndex_Some_iff)
  with a have "messages ! i \<in> set (findMessagesByFlight messages flightNumber)"
    by (simp add: findMessagesByFlight_def)
  moreover from flight_listing_whole [of requester messages flightNumber limit] a
  obtain r where "getFlightMessages messages requester flightNumber 1 limit = Inr r"
    "set (listedMessages r) = processedMessage ` set (findMessagesByFlight messages flightNumber)"
    by blast
  moreover have "content (processedMessage (messages ! i))
                   = (if isEncrypted (messages ! i) then ''[Encrypted Message]''
                      else content (messages ! i))"
    by (simp add: processedMessage_def message_public.truncate_def)
  ultimately show "\<exists>r. getFlightMessages messages requester flightNumber 1 limit = Inr r \<and>
                 processedMessage (messages ! i) \<in> set (listedMessages r) \<and>
                 content (processedMessage (messages ! i))
                   = (if isEncrypted (messages ! i) then ''[Encrypted Message]''
                      else content (messages ! i))"
    by blast
qed

theorem message_read_by_id_and_by_flight_witness:
  "getMessage nodeLib 1705331000000 messages0 attendantMartinez ''msg-001''
     = (Inl MESSAGE_ACCESS_DENIED, messages0) \<and>
   getMessage nodeLib 1705331000000 messages0 (attendantMartinez\<lparr>reqClearanceLevel := 5\<rparr>)
       ''msg-001''
     = (Inl MESSAGE_ACCESS_DENIED, messages0) \<and>
   getFlightMessages messages0 attendantMartinez ''AA1234'' 1 20 = Inl INSUFFICIENT_ROLE \<and>
   getMessage nodeLib 1705331000000 messages0 captainJohnson ''msg-001''
     = (Inr (message_public.truncate (messages0 ! 0)), messages0) \<and>
   getMessage nodeLib 1705331000000 messages0 captainJohnson ''msg-002''
     = (Inr (message_public.truncate
               ((messages0 ! Suc 0)\<lparr>readAt := Some 1705331000000,
                                      msgUpdatedAt := 1705331000000\<rparr>)),
        messages0[Suc 0 := (messages0 ! Suc 0)\<lparr>readAt := Some 1705331000000,
                                                 msgUpdatedAt := 1705331000000\<rparr>]) \<and>
   (\<exists>r. getFlightMessages messages0 captainJohnson ''AA1234'' 1 20 = Inr r \<and>
        processedMessage (messages0 ! 0) \<in> set (listedMessages r))"
proof -
  have i: "findMessageById messages0 ''msg-001'' = Some 0"
    "findMessageById messages0 ''msg-002'' = Some (Suc 0)"
    by (simp_all add: findMessageById_def messages0_def)
  have f: "senderId (messages0 ! 0) = ''AA12345''" "recipientId (messages0 ! 0) = ''AA12346''"
    "msgFlightNumber (messages0 ! 0) = Some ''AA1234''"
    "recipientId (messages0 ! Suc 0) = ''AA12345''" "readAt (messages0 ! Suc 0) = None"
    "\<not> isEncrypted (messages0 ! Suc 0)"
    by (simp_all add: messages0_def)
  have r: "reqEmployeeId attendantMartinez = ''AA12347''"
    "reqRole attendantMartinez = ''flight-attendant''"
    "reqEmployeeId captainJohnson = ''AA12345''" "reqRole captainJohnson = ''pilot''"
    by (simp_all add: attendantMartinez_def captainJohnson_def)
  have n: "length (findMessagesByFlight messages0 ''AA1234'') \<le> 20"
    by (simp add: findMessagesByFlight_def messages0_def)
  note M = message_read_by_id_and_by_flight
             [OF i(1), of attendantMartinez nodeLib 1705331000000 "''AA1234''" 1 20]
  from M f r have denied: "\<forall>c. getMessage nodeLib 1705331000000 messages0
                       (attendantMartinez\<lparr>reqClearanceLevel := c\<rparr>) ''msg-001''
                  = (Inl MESSAGE_ACCESS_DENIED, messages0)"
    by simp
  from denied [rule_format, of 2]
  have a: "getMessage nodeLib 1705331000000 messages0 attendantMartinez ''msg-001''
     = (Inl MESSAGE_ACCESS_DENIED, messages0)"
    by (simp add: attendantMartinez_def)
  from M r have b: "getFlightMessages messages0 attendantMartinez ''AA1234'' 1 20
                      = Inl INSUFFICIENT_ROLE"
    by simp
  note J = message_read_by_id_and_by_flight
             [OF i(1), of captainJohnson nodeLib 1705331000000 "''AA1234''" 1 20]
  from J f r have c: "getMessage nodeLib 1705331000000 messages0 captainJohnson ''msg-001''
     = (Inr (message_public.truncate (messages0 ! 0)), messages0)"
    by simp
  from J f r n have "\<exists>r. getFlightMessages messages0 captainJohnson ''AA1234'' 1 20 = Inr r \<and>
        processedMessage (messages0 ! 0) \<in> set (listedMessages r) \<and>
        content (processedMessage (messages0 ! 0))
          = (if isEncrypted (messages0 ! 0) then ''[Encrypted Message]''
             else content (messages0 ! 0))"
    by simp
  then have d: "\<exists>r. getFlightMessages messages0 captainJohnson ''AA1234'' 1 20 = Inr r \<and>
        processedMessage (messages0 ! 0) \<in> set (listedMessages r)"
    by blast
  from message_read_by_id_and_by_flight
         [OF i(2), of captainJohnson nodeLib 1705331000000 "''AA1234''" 1 20] f r
  have e: "getMessage nodeLib 1705331000000 messages0 captainJohnson ''msg-002''
     = (Inr (message_public.truncate
               ((messages0 ! Suc 0)\<lparr>readAt := Some 1705331000000,
                                      msgUpdatedAt := 1705331000000\<rparr>)),
        messages0[Suc 0 := (messages0 ! Suc 0)\<lparr>readAt := Some 1705331000000,
                                                 msgUpdatedAt := 1705331000000\<rparr>])"
    by (simp add: Let_def)
  from a denied b c d e show ?thesis by blast
qed

text \<open>
  The claim as stated fails. First Officer Chen is neither the sender nor the recipient
  of the seeded message \<open>msg-002\<close>; the read by id refuses him, and the listing of
  flight AA1234 hands him the message with its content.
\<close>

theorem flight_listing_shows_third_party_counterexample:
  "reqEmployeeId officerChen \<noteq> senderId (messages0 ! 1) \<and>
   reqEmployeeId officerChen \<noteq> recipientId (messages0 ! 1) \<and>
   msgId (messages0 ! 1) = ''msg-002'' \<and>
   getMessage nodeLib 1705331000000 messages0 officerChen ''msg-002''
     = (Inl MESSAGE_ACCESS_DENIED, messages0) \<and>
   (\<exists>r. getFlightMessages messages0 officerChen ''AA1234'' 1 20 = Inr r \<and>
        map msgId (listedMessages r) = [''msg-003'', ''msg-004'', ''msg-001'', ''msg-002''] \<and>
        content (listedMessages r ! 3)
          = ''Flight plan revision: Route change due to air traffic. New routing via WYNDE waypoint.'')"
  by (simp add: getMessage_def findMessageById_def getFlightMessages_def requireRole_def
      findMessagesByFlight_def processedMessage_def message_public.truncate_def
      messages0_def officerChen_def Let_def)

text \<open>
  Claim C6, as the handler has it. For a message that is in the store (at position
  \<open>i\<close>), a requester other than the sender gets \<open>DELETE_ACCESS_DENIED\<close>; the sender of
  a message that has been read and is more than five minutes old, counted from the
  creation of the message, gets \<open>DELETE_TIME_EXPIRED\<close>; in both cases the store stays
  as it was. In every other case (the message is unread, or at most five minutes old)
  the sender's request succeeds and the record leaves the store.
\<close>

theorem message_delete_rules:
  assumes "findMessageById messages mid = Some i"
  shows "deleteMessageRoute now messages requester mid =
           (if senderId (messages ! i) \<noteq> reqEmployeeId requester
            then (Inl DELETE_ACCESS_DENIED, messages)
            else if readAt (messages ! i) \<noteq> None \<and>
                    now - msgCreatedAt (messages ! i) > 5 * 60 * 1000
            then (Inl DELETE_TIME_EXPIRED, messages)
            else (Inr (), splice1 i messages))"
  using assms
  by (simp add: deleteMessageRoute_def deleteMessage_def findMessageById_def maxDeleteTime_def
      Let_def)

theorem message_delete_rules_witness:
  "deleteMessageRoute 1705326400000 messages0 officerChen ''msg-002''
     = (Inl DELETE_ACCESS_DENIED, messages0) \<and>
   deleteMessageRoute 1705328100001 messages0 captainJohnson ''msg-001''
     = (Inl DELETE_TIME_EXPIRED, messages0) \<and>
   deleteMessageRoute 1705328100000 messages0 captainJohnson ''msg-001''
     = (Inr (), splice1 0 messages0)"
proof -
  have i: "findMessageById messages0 ''msg-001'' = Some 0"
    "findMessageById messages0 ''msg-002'' = Some (Suc 0)"
    by (simp_all add: findMessageById_def messages0_def)
  have f: "senderId (messages0 ! 0) = ''AA12345''" "readAt (messages0 ! 0) = Some 1705328100000"
    "msgCreatedAt (messages0 ! 0) = 1705327800000"
    "senderId (messages0 ! Suc 0) = ''AA12349''"
    by (simp_all add: messages0_def)
  have r: "reqEmployeeId captainJohnson = ''AA12345''" "reqEmployeeId officerChen = ''AA12346''"
    by (simp_all add: captainJohnson_def officerChen_def)
  from message_delete_rules [OF i(2), of 1705326400000 officerChen]
       message_delete_rules [OF i(1), of 1705328100001 captainJohnson]
       message_delete_rules [OF i(1), of 1705328100000 captainJohnson]
  show ?thesis by (simp add: f r)
qed

text \<open>
  The claim as stated fails: the seeded message \<open>msg-001\<close> was created at 14:10 and read
  at 14:15; one minute after the read its sender can no longer delete it.
\<close>

theorem delete_window_after_read_counterexample:
  "readAt (messages0 ! 0) = Some 1705328100000 \<and>
   1705328160000 - 1705328100000 \<le> maxDeleteTime \<and>
   deleteMessageRoute 1705328160000 messages0 captainJohnson ''msg-001''
     = (Inl DELETE_TIME_EXPIRED, messages0)"
  by (simp add: deleteMessageRoute_def findMessageById_def maxDeleteTime_def
      messages0_def captainJohnson_def)

text \<open>
  What \<^verbatim>\<open>POST /messages\<close> stores when encryption is requested and the cipher exists:
  the ciphertext as content, the plaintext as \<open>originalContent\<close> and the key as
  \<open>encryptionKey\<close>; the response is that record without these two fields.
\<close>

lemma stored_record_when_cipher_exists:
  assumes "sendMessage N now newId k iv users messages requester body = (Inr response, messages')"
    and "sendIsEncrypted body \<noteq> Some False"
  shows "\<exists>e stored.
           encryptMessage N k iv (sendContent body) = Inr e \<and>
           messages' = messages @ [stored] \<and>
           isEncrypted stored \<and>
           content stored = encryptedContent e \<and>
           originalContent stored = sendContent body \<and>
           encryptionKey stored = Some (key e) \<and>
           response = message_public.truncate stored"
proof -
  have flag: "(case sendIsEncrypted body of None \<Rightarrow> True | Some b \<Rightarrow> b)"
    using assms(2) by (cases "sendIsEncrypted body") auto
  from assms(1) obtain j where j: "findUserByEmployeeId users (sendRecipientId body) = Some j"
    by (cases "findUserByEmployeeId users (sendRecipientId body)")
      (auto simp: sendMessage_def Let_def)
  from assms(1) j have act: "isActive (users ! j)"
    by (auto simp: sendMessage_def Let_def split: if_splits)
  from assms(1) j act flag obtain e where e: "encryptMessage N k iv (sendContent body) = Inr e"
    by (cases "encryptMessage N k iv (sendContent body)")
      (auto simp: sendMessage_def Let_def)
  from assms(1) j act flag e show ?thesis
    by (auto simp: sendMessage_def Let_def addMessage_def)
qed

text \<open>
  Claim C9 on the code as it runs. With Node's crypto module, a request to send a
  message with \<^verbatim>\<open>isEncrypted\<close> true (or absent, which defaults to true) never stores
  anything: when the recipient exists and is active, \<^verbatim>\<open>encryptMessage\<close> throws and the
  request ends with an internal error; otherwise it ends with \<open>RECIPIENT_NOT_FOUND\<close> or
  \<open>RECIPIENT_INACTIVE\<close>. None of the seeded messages is encrypted. So the store never
  holds an encrypted message, with or without its plaintext.
\<close>

theorem encrypted_send_throws_on_node:
  "sendMessage nodeLib now newId k iv users messages requester (body\<lparr>sendIsEncrypted := Some True\<rparr>)
     = (Inl (case findUserByEmployeeId users (sendRecipientId body) of
               None \<Rightarrow> RECIPIENT_NOT_FOUND
             | Some j \<Rightarrow>
                 if isActive (users ! j)
                 then INTERNAL_ERROR
                        ''Message encryption failed: crypto.createCipherGCM is not a function''
                 else RECIPIENT_INACTIVE),
        messages) \<and>
   sendMessage nodeLib now newId k iv users messages requester (body\<lparr>sendIsEncrypted := None\<rparr>)
     = sendMessage nodeLib now newId k iv users messages requester
         (body\<lparr>sendIsEncrypted := Some True\<rparr>) \<and>
   sendMessage nodeLib 1705330000000 ''id-1'' sampleKey sampleIV users0 messages0
       captainJohnson sampleSend
     = (Inl (INTERNAL_ERROR
               ''Message encryption failed: crypto.createCipherGCM is not a function''),
        messages0) \<and>
   filter isEncrypted messages0 = []"
proof (intro conjI)
  show "filter isEncrypted messages0 = []" by (simp add: messages0_def)
  show "sendMessage nodeLib now newId k iv users messages requester
          (body\<lparr>sendIsEncrypted := Some True\<rparr>)
     = (Inl (case findUserByEmployeeId users (sendRecipientId body) of
               None \<Rightarrow> RECIPIENT_NOT_FOUND
             | Some j \<Rightarrow>
                 if isActive (users ! j)
                 then INTERNAL_ERROR
                        ''Message encryption failed: crypto.createCipherGCM is not a function''
                 else RECIPIENT_INACTIVE),
        messages)"
    by (simp add: sendMessage_def encryptMessage_def nodeLib_def Let_def split: option.splits)
  show "sendMessage nodeLib now newId k iv users messages requester (body\<lparr>sendIsEncrypted := None\<rparr>)
     = sendMessage nodeLib now newId k iv users messages requester
         (body\<lparr>sendIsEncrypted := Some True\<rparr>)"
    by (simp add: sendMessage_def encryptMessage_def nodeLib_def Let_def split: option.splits)
  show "sendMessage nodeLib 1705330000000 ''id-1'' sampleKey sampleIV users0 messages0
       captainJohnson sampleSend
     = (Inl (INTERNAL_ERROR
               ''Message encryption failed: crypto.createCipherGCM is not a function''),
        messages0)"
    by (simp add: sendMessage_def encryptMessage_def nodeLib_def Let_def sampleSend_def
        findUserByEmployeeId_def users0_def)
qed

subsection \<open>Documents: the clearance gate\<close>

lemma changeDocument_at:
  assumes "findDocumentById documents did = Some i" "docId d' = did"
  shows "changeDocument documents i d' = (documents[i := d'], True)"
proof -
  from assms(1) have i: "i < length documents" "docId (documents ! i) = did"
    and first: "\<forall>k<i. docId (documents ! k) \<noteq> did"
    by (simp_all add: findDocumentById_def findIndex_Some_iff)
  have "findIndex (\<lambda>d. docId d = docId d') (documents[i := d']) = Some i"
    unfolding findIndex_Some_iff using i first assms(2) by simp
  then show ?thesis by (simp add: changeDocument_def updateDocument_def)
qed

lemma findDocument_Some:
  "findDocumentById documents did = Some i \<Longrightarrow> i < length documents \<and> docId (documents ! i) = did"
  by (simp add: findDocumentById_def findIndex_Some_iff)







subsection \<open>Deleting documents and messages\<close>

lemma uploadFiles_appends:
  "\<exists>ys. snd (uploadFiles N now requester body several files documents uploaded) = documents @ ys"
proof (induction files arbitrary: documents uploaded)
  case Nil
  then show ?case by simp
next
  case (Cons f files)
  obtain fl newId k iv where f: "f = (fl, newId, k, iv)" by (cases f)
  show ?case
  proof (cases "encryptFile N k iv (buffer fl)")
    case (Inl e)
    with f show ?thesis by simp
  next
    case (Inr enc)
    let ?d = "\<lparr>docId = newId,
              title = (if several then upTitle body @ '' - '' @ originalname fl
                       else upTitle body),
              description = (case upDescription body of None \<Rightarrow> [] | Some t \<Rightarrow> t),
              docCategory = upCategory body,
              accessLevel = upAccessLevel body,
              docFlightNumber = upFlightNumber body,
              fileName = originalname fl,
              fileSize = fileSizeBytes fl,
              mimeType = mimetype fl,
              uploadedBy = reqEmployeeId requester,
              uploaderName = reqName requester,
              uploaderRole = reqRole requester,
              docStatus = ''active'',
              downloadCount = 0,
              expiresAt = upExpiresAt body,
              docCreatedAt = now,
              docUpdatedAt = now,
              accessLog = [\<lparr>action = ''uploaded'', logEmployeeId = reqEmployeeId requester,
                            logName = reqName requester, logTimestamp = now,
                            details = ''Document uploaded''\<rparr>],
              docEncryptedContent = encryptedContent enc,
              docEncryptionKey = key enc\<rparr>"
    from Cons.IH [of "addDocument documents ?d" "uploaded @ [?d]"]
    obtain ys where "snd (uploadFiles N now requester body several files
                            (addDocument documents ?d) (uploaded @ [?d]))
                       = addDocument documents ?d @ ys"
      by blast
    with f Inr show ?thesis by (simp add: addDocument_def Let_def)
  qed
qed

text \<open>What a document operation may do to the store: append, or rewrite records in place.\<close>

lemma keeps_update:
  assumes "i < length documents" "docId d' = docId (documents ! i)"
    and "docStatus (documents ! i) = ''deleted'' \<longrightarrow> docStatus d' = ''deleted''"
    and "k < length documents"
  shows "docId (documents[i := d'] ! k) = docId (documents ! k) \<and>
         (docStatus (documents ! k) = ''deleted'' \<longrightarrow> docStatus (documents[i := d'] ! k) = ''deleted'')"
  using assms by (cases "k = i") simp_all

lemma document_op_keeps_records:
  assumes k: "k < length documents"
  shows "length documents \<le> length (applyDocumentOp N documents op) \<and>
         docId (applyDocumentOp N documents op ! k) = docId (documents ! k) \<and>
         (docStatus (documents ! k) = ''deleted'' \<longrightarrow>
            docStatus (applyDocumentOp N documents op ! k) = ''deleted'')"
proof (cases op)
  case (Upload now requester body files)
  from uploadFiles_appends [of N now requester body "length files > 1" files documents "[]"]
  obtain ys where ys: "snd (uploadFiles N now requester body (length files > 1) files documents [])
                         = documents @ ys"
    by blast
  have "applyDocumentOp N documents op = documents \<or> applyDocumentOp N documents op = documents @ ys"
    using Upload ys
    by (cases "uploadFiles N now requester body (length files > 1) files documents []")
      (auto simp: uploadDocuments_def split: sum.splits)
  with k show ?thesis by (auto simp: nth_append)
next
  case (View now requester did)
  show ?thesis
  proof (cases "findDocumentById documents did")
    case None
    with View show ?thesis by (simp add: getDocument_def)
  next
    case (Some i)
    note fd = findDocument_Some [OF Some]
    let ?d' = "(documents ! i)\<lparr>accessLog := accessLog (documents ! i) @
                   [logEntryFor requester now ''viewed'' ''Document details viewed'']\<rparr>"
    have "applyDocumentOp N documents op = documents \<or>
          applyDocumentOp N documents op = documents[i := ?d']"
      using View Some fd changeDocument_at [OF Some, of ?d']
      by (simp add: getDocument_def Let_def)
    with k fd keeps_update [of i documents ?d' k] show ?thesis by auto
  qed
next
  case (Download now requester did)
  show ?thesis
  proof (cases "findDocumentById documents did")
    case None
    with Download show ?thesis by (simp add: downloadDocument_def)
  next
    case (Some i)
    note fd = findDocument_Some [OF Some]
    let ?d' = "(documents ! i)\<lparr>downloadCount := downloadCount (documents ! i) + 1,
                  accessLog := accessLog (documents ! i) @
                    [logEntryFor requester now ''downloaded'' ''Document downloaded''],
                  docUpdatedAt := now\<rparr>"
    have "applyDocumentOp N documents op = documents \<or>
          applyDocumentOp N documents op = documents[i := ?d']"
      using Download Some fd changeDocument_at [OF Some, of ?d']
      by (simp add: downloadDocument_def Let_def split: sum.splits)
    with k fd keeps_update [of i documents ?d' k] show ?thesis by auto
  qed
next
  case (Update now requester did body)
  show ?thesis
  proof (cases "findDocumentById documents did")
    case None
    with Update show ?thesis by (simp add: updateDocumentRoute_def)
  next
    case (Some i)
    note fd = findDocument_Some [OF Some]
    let ?d = "documents ! i"
    let ?d1 = "if truthy (newTitle body) then ?d\<lparr>title := the (newTitle body)\<rparr> else ?d"
    let ?d2 = "case newDescription body of None \<Rightarrow> ?d1 | Some t \<Rightarrow> ?d1\<lparr>description := t\<rparr>"
    let ?d3 = "if truthy (newCategory body) then ?d2\<lparr>docCategory := the (newCategory body)\<rparr> else ?d2"
    let ?d4 = "if truthyNumber (newAccessLevel body)
               then ?d3\<lparr>accessLevel := the (newAccessLevel body)\<rparr> else ?d3"
    let ?d5 = "case newFlightNumber body of None \<Rightarrow> ?d4 | Some f \<Rightarrow> ?d4\<lparr>docFlightNumber := f\<rparr>"
    let ?d6 = "case newExpiresAt body of None \<Rightarrow> ?d5 | Some e \<Rightarrow> ?d5\<lparr>expiresAt := e\<rparr>"
    let ?d7 = "?d6\<lparr>docUpdatedAt := now,
                   accessLog := accessLog ?d6 @
                     [logEntryFor requester now ''updated'' ''Document metadata updated'']\<rparr>"
    have same: "docId ?d7 = docId ?d" "docStatus ?d7 = docStatus ?d"
      by (simp_all split: option.splits)
    have "applyDocumentOp N documents op = documents \<or>
          applyDocumentOp N documents op = documents[i := ?d7]"
      using Update Some fd changeDocument_at [OF Some, of ?d7] same(1)
      by (simp add: updateDocumentRoute_def Let_def)
    with k fd keeps_update [of i documents ?d7 k] same show ?thesis by auto
  qed
next
  case (Delete now requester did)
  show ?thesis
  proof (cases "findDocumentById documents did")
    case None
    with Delete show ?thesis by (simp add: deleteDocumentRoute_def)
  next
    case (Some i)
    note fd = findDocument_Some [OF Some]
    let ?d' = "(documents ! i)\<lparr>docStatus := ''deleted'', docUpdatedAt := now,
                  accessLog := accessLog (documents ! i) @
                    [logEntryFor requester now ''deleted'' ''Document deleted'']\<rparr>"
    have "applyDocumentOp N documents op = documents \<or>
          applyDocumentOp N documents op = documents[i := ?d']"
      using Delete Some fd changeDocument_at [OF Some, of ?d']
      by (simp add: deleteDocumentRoute_def Let_def)
    with k fd keeps_update [of i documents ?d' k] show ?thesis by auto
  qed
next
  case (DeleteDocument now did)
  show ?thesis
  proof (cases "findDocumentById documents did")
    case None
    with DeleteDocument show ?thesis by (simp add: deleteDocument_def)
  next
    case (Some i)
    note fd = findDocument_Some [OF Some]
    let ?d' = "(documents ! i)\<lparr>docStatus := ''deleted'', docUpdatedAt := now\<rparr>"
    have "applyDocumentOp N documents op = documents[i := ?d']"
      using DeleteDocument Some fd changeDocument_at [OF Some, of ?d']
      by (simp add: deleteDocument_def)
    with k fd keeps_update [of i documents ?d' k] show ?thesis by auto
  qed
next
  case (LogDocumentAccess now did act requester det)
  show ?thesis
  proof (cases "findDocumentById documents did")
    case None
    with LogDocumentAccess show ?thesis by (simp add: logDocumentAccess_def)
  next
    case (Some i)
    note fd = findDocument_Some [OF Some]
    let ?d' = "(documents ! i)\<lparr>accessLog := accessLog (documents ! i) @
                  [\<lparr>action = act, logEmployeeId = reqEmployeeId requester,
                    logName = reqName requester, logTimestamp = now, details = det\<rparr>],
                  docUpdatedAt := now\<rparr>"
    have "applyDocumentOp N documents op = documents[i := ?d']"
      using LogDocumentAccess Some fd changeDocument_at [OF Some, of ?d']
      by (simp add: logDocumentAccess_def Let_def)
    with k fd keeps_update [of i documents ?d' k] show ?thesis by auto
  qed
next
  case (CleanupExpiredDocuments now)
  with k show ?thesis by (simp add: cleanupExpiredDocuments_def Let_def)
qed

text \<open>
  Claim C8, as the sources have it. Documents are deleted softly: a successful delete
  sets the status of the record to \<open>deleted\<close> and keeps it in the store, and no
  operation that writes the documents store removes a record, changes its id or takes a
  record out of the \<open>deleted\<close> status. Messages are not: a successful delete removes
  the record from the messages store, which is then one record shorter.
\<close>

theorem documents_soft_deleted_messages_removed:
  "(\<forall>k<length documents.
      length documents \<le> length (applyDocumentOp N documents op) \<and>
      docId (applyDocumentOp N documents op ! k) = docId (documents ! k) \<and>
      (docStatus (documents ! k) = ''deleted'' \<longrightarrow>
         docStatus (applyDocumentOp N documents op ! k) = ''deleted'')) \<and>
   (\<forall>i. findDocumentById documents did = Some i \<and>
        fst (deleteDocumentRoute now documents requester did) = Inr () \<longrightarrow>
        length (snd (deleteDocumentRoute now documents requester did)) = length documents \<and>
        docId (snd (deleteDocumentRoute now documents requester did) ! i) = did \<and>
        docStatus (snd (deleteDocumentRoute now documents requester did) ! i) = ''deleted'') \<and>
   (\<forall>i. findMessageById messages mid = Some i \<and>
        fst (deleteMessageRoute now messages requester mid) = Inr () \<longrightarrow>
        snd (deleteMessageRoute now messages requester mid) = splice1 i messages \<and>
        length (snd (deleteMessageRoute now messages requester mid)) + 1 = length messages)"
proof (intro conjI allI impI)
  fix k assume k: "k < length documents"
  from document_op_keeps_records [OF k, of N op]
  show "length documents \<le> length (applyDocumentOp N documents op)"
    and "docId (applyDocumentOp N documents op ! k) = docId (documents ! k)"
    by simp_all
  assume "docStatus (documents ! k) = ''deleted''"
  with document_op_keeps_records [OF k, of N op]
  show "docStatus (applyDocumentOp N documents op ! k) = ''deleted''" by simp
next
  fix i
  assume a: "findDocumentById documents did = Some i \<and>
        fst (deleteDocumentRoute now documents requester did) = Inr ()"
  then have i: "findDocumentById documents did = Some i" by simp
  note fd = findDocument_Some [OF i]
  let ?d' = "(documents ! i)\<lparr>docStatus := ''deleted'', docUpdatedAt := now,
                  accessLog := accessLog (documents ! i) @
                    [logEntryFor requester now ''deleted'' ''Document deleted'']\<rparr>"
  have allowed: "\<not> (uploadedBy (documents ! i) \<noteq> reqEmployeeId requester \<and>
                      reqClearanceLevel requester < 5)"
  proof
    assume "uploadedBy (documents ! i) \<noteq> reqEmployeeId requester \<and>
            reqClearanceLevel requester < 5"
    with i have "fst (deleteDocumentRoute now documents requester did) = Inl DELETE_ACCESS_DENIED"
      by (simp add: deleteDocumentRoute_def Let_def)
    with a show False by simp
  qed
  have "snd (deleteDocumentRoute now documents requester did) = documents[i := ?d']"
    using i allowed fd changeDocument_at [OF i, of ?d']
    by (auto simp: deleteDocumentRoute_def Let_def)
  with fd show "length (snd (deleteDocumentRoute now documents requester did)) = length documents"
    and "docId (snd (deleteDocumentRoute now documents requester did) ! i) = did"
    and "docStatus (snd (deleteDocumentRoute now documents requester did) ! i) = ''deleted''"
    by simp_all
next
  fix i
  assume a: "findMessageById messages mid = Some i \<and>
        fst (deleteMessageRoute now messages requester mid) = Inr ()"
  then have il: "i < length messages" by (simp add: findMessageById_def findIndex_Some_iff)
  from a have i: "findIndex (\<lambda>m. msgId m = mid) messages = Some i"
    and ok: "fst (deleteMessageRoute now messages requester mid) = Inr ()"
    by (simp_all add: findMessageById_def)
  from ok have "deleteMessageRoute now messages requester mid = (Inr (), splice1 i messages)"
    unfolding deleteMessageRoute_def deleteMessage_def findMessageById_def Let_def i
    by (simp split: if_splits)
  then show s: "snd (deleteMessageRoute now messages requester mid) = splice1 i messages"
    by simp
  show "length (snd (deleteMessageRoute now messages requester mid)) + 1 = length messages"
    using il by (simp add: s splice1_def)
qed

theorem documents_soft_deleted_messages_removed_witness:
  "length (snd (deleteDocumentRoute 1705330000000 documents0 dispatcherWilson ''doc-001''))
     = length documents0 \<and>
   docStatus (snd (deleteDocumentRoute 1705330000000 documents0 dispatcherWilson ''doc-001'') ! 0)
     = ''deleted'' \<and>
   docStatus (applyDocumentOp nodeLib
                (snd (deleteDocumentRoute 1705330000000 documents0 dispatcherWilson ''doc-001''))
                (Update 1705330001000 dispatcherWilson ''doc-001''
                   \<lparr>newTitle = Some ''Restored'', newDescription = None, newCategory = None,
                    newAccessLevel = None, newFlightNumber = None, newExpiresAt = None\<rparr>) ! 0)
     = ''deleted'' \<and>
   snd (deleteMessageRoute 1705326400000 messages0 dispatcherWilson ''msg-002'')
     = splice1 (Suc 0) messages0"
proof -
  let ?deleted = "snd (deleteDocumentRoute 1705330000000 documents0 dispatcherWilson ''doc-001'')"
  let ?op = "Update 1705330001000 dispatcherWilson ''doc-001''
                   \<lparr>newTitle = Some ''Restored'', newDescription = None, newCategory = None,
                    newAccessLevel = None, newFlightNumber = None, newExpiresAt = None\<rparr>"
  have di: "findDocumentById documents0 ''doc-001'' = Some 0"
    by (simp add: findDocumentById_def documents0_def)
  have dok: "fst (deleteDocumentRoute 1705330000000 documents0 dispatcherWilson ''doc-001'') = Inr ()"
    by (simp add: deleteDocumentRoute_def findDocumentById_def documents0_def
        dispatcherWilson_def Let_def)
  have mi: "findMessageById messages0 ''msg-002'' = Some (Suc 0)"
    by (simp add: findMessageById_def messages0_def)
  have mok: "fst (deleteMessageRoute 1705326400000 messages0 dispatcherWilson ''msg-002'') = Inr ()"
    by (simp add: deleteMessageRoute_def deleteMessage_def findMessageById_def messages0_def
        dispatcherWilson_def Let_def)
  note T1 = documents_soft_deleted_messages_removed
              [where documents = documents0 and did = "''doc-001''" and now = 1705330000000
                 and requester = dispatcherWilson]
  from T1 di dok have a: "length ?deleted = length documents0"
    and b: "docStatus (?deleted ! 0) = ''deleted''"
    by blast+
  note T3 = documents_soft_deleted_messages_removed
              [where messages = messages0 and mid = "''msg-002''" and now = 1705326400000
                 and requester = dispatcherWilson]
  from T3 mi mok
  have c: "snd (deleteMessageRoute 1705326400000 messages0 dispatcherWilson ''msg-002'')
             = splice1 (Suc 0) messages0"
    by blast
  have len: "0 < length ?deleted" using a by (simp add: documents0_def)
  note T2 = documents_soft_deleted_messages_removed
              [where documents = ?deleted and N = nodeLib and op = ?op]
  from T2 len b have "docStatus (applyDocumentOp nodeLib ?deleted ?op ! 0) = ''deleted''"
    by blast
  with a b c show ?thesis by simp
qed

text \<open>
  The claim as stated fails for messages: after the sender deletes the seeded message
  \<open>msg-002\<close>, the store has three records and none with that id.
\<close>

theorem message_delete_erases_counterexample:
  "length messages0 = 4 \<and>
   fst (deleteMessageRoute 1705326400000 messages0 dispatcherWilson ''msg-002'') = Inr () \<and>
   length (snd (deleteMessageRoute 1705326400000 messages0 dispatcherWilson ''msg-002'')) = 3 \<and>
   findMessageById (snd (deleteMessageRoute 1705326400000 messages0 dispatcherWilson ''msg-002''))
     ''msg-002'' = None"
  by (simp add: deleteMessageRoute_def deleteMessage_def findMessageById_def splice1_def
      messages0_def dispatcherWilson_def Let_def)

subsection \<open>Verification and the blacklist\<close>

text \<open>
  Claim C1, as the sources have it. Verification does not consult the blacklist. For a
  token that is in the blacklist and not expired there, \<open>isTokenBlacklisted\<close> answers
  true and leaves the blacklist as it is, and nothing else looks at it:
  \<open>verifyAccessToken\<close> returns what \<^verbatim>\<open>jwt.verify\<close> decides on signature, expiry,
  issuer and audience, the claims when it accepts and an \<open>Invalid access token\<close> error
  with the message of \<^verbatim>\<open>jwt.verify\<close> when it does not. Given a header that carries the
  token, the middleware \<open>authenticateToken\<close> lets the request through with the stored
  user when \<^verbatim>\<open>jwt.verify\<close> accepts signature and expiry and the user of the claims
  exists and is active; it answers \<open>USER_NOT_FOUND\<close> or \<open>ACCOUNT_DEACTIVATED\<close> when
  the user does not exist or is not active, and \<open>TOKEN_EXPIRED\<close>, \<open>INVALID_TOKEN\<close> or
  \<open>AUTH_ERROR\<close> by the kind of error of \<^verbatim>\<open>jwt.verify\<close>. \<open>optionalAuth\<close> attaches
  the user in the one case and nothing in the others. Logging out leaves the blacklist
  as it was. No answer says that the token was revoked: whatever the header, the
  middleware passes the request on or answers with one of six codes, \<open>NO_TOKEN\<close>
  being the sixth.
\<close>

theorem verification_ignores_blacklist:
  assumes "bl = Some m" and "m token = Some expiry" and "now \<le> expiry"
  shows "isTokenBlacklisted now bl token = (True, bl) \<and>
         verifyAccessToken L env now token
           = (case jwtVerify L now token (JWT_SECRET env)
                     \<lparr>verifyIssuer = Some ''aviation-crew-api'',
                      verifyAudience = Some ''aviation-crew''\<rparr> of
                Inr decoded \<Rightarrow> Inr decoded
              | Inl e \<Rightarrow> Inl (''Invalid access token: '' @ jwtErrorMessage e)) \<and>
         (headerToken authHeader = Some token \<longrightarrow>
            authenticateToken L env now users authHeader
              = (case jwtVerify L now token (JWT_SECRET env)
                        \<lparr>verifyIssuer = None, verifyAudience = None\<rparr> of
                   Inr decoded \<Rightarrow>
                     (case lookupUser users (payloadEmployeeId decoded) of
                        None \<Rightarrow> Respond 401 ''USER_NOT_FOUND''
                      | Some u \<Rightarrow>
                          if isActive u then Next (requestUser u)
                          else Respond 401 ''ACCOUNT_DEACTIVATED'')
                 | Inl TokenExpiredError \<Rightarrow> Respond 401 ''TOKEN_EXPIRED''
                 | Inl (JsonWebTokenError msg) \<Rightarrow> Respond 401 ''INVALID_TOKEN''
                 | Inl (OtherError msg) \<Rightarrow> Respond 500 ''AUTH_ERROR'') \<and>
            optionalAuth L env now users authHeader
              = (case jwtVerify L now token (JWT_SECRET env)
                        \<lparr>verifyIssuer = None, verifyAudience = None\<rparr> of
                   Inr decoded \<Rightarrow>
                     (case lookupUser users (payloadEmployeeId decoded) of
                        None \<Rightarrow> None
                      | Some u \<Rightarrow> if isActive u then Some (requestUser u) else None)
                 | Inl e \<Rightarrow> None)) \<and>
         ((\<exists>r. authenticateToken L env now users authHeader = Next r) \<or>
          authenticateToken L env now users authHeader
            \<in> {Respond 401 ''NO_TOKEN'', Respond 401 ''USER_NOT_FOUND'',
               Respond 401 ''ACCOUNT_DEACTIVATED'', Respond 401 ''TOKEN_EXPIRED'',
               Respond 401 ''INVALID_TOKEN'', Respond 500 ''AUTH_ERROR''}) \<and>
         snd (logout bl requester) = bl"
proof (intro conjI impI)
  show "(\<exists>r. authenticateToken L env now users authHeader = Next r) \<or>
          authenticateToken L env now users authHeader
            \<in> {Respond 401 ''NO_TOKEN'', Respond 401 ''USER_NOT_FOUND'',
               Respond 401 ''ACCOUNT_DEACTIVATED'', Respond 401 ''TOKEN_EXPIRED'',
               Respond 401 ''INVALID_TOKEN'', Respond 500 ''AUTH_ERROR''}"
    by (simp add: authenticateToken_def Let_def
        split: sum.splits option.splits jwt_error.splits)
  show "isTokenBlacklisted now bl token = (True, bl)"
    using assms by (simp add: isTokenBlacklisted_def)
  show "verifyAccessToken L env now token
           = (case jwtVerify L now token (JWT_SECRET env)
                     \<lparr>verifyIssuer = Some ''aviation-crew-api'',
                      verifyAudience = Some ''aviation-crew''\<rparr> of
                Inr decoded \<Rightarrow> Inr decoded
              | Inl e \<Rightarrow> Inl (''Invalid access token: '' @ jwtErrorMessage e))"
    by (simp add: verifyAccessToken_def)
  show "snd (logout bl requester) = bl" by (simp add: logout_def)
next
  assume h: "headerToken authHeader = Some token"
  show "authenticateToken L env now users authHeader
              = (case jwtVerify L now token (JWT_SECRET env)
                        \<lparr>verifyIssuer = None, verifyAudience = None\<rparr> of
                   Inr decoded \<Rightarrow>
                     (case lookupUser users (payloadEmployeeId decoded) of
                        None \<Rightarrow> Respond 401 ''USER_NOT_FOUND''
                      | Some u \<Rightarrow>
                          if isActive u then Next (requestUser u)
                          else Respond 401 ''ACCOUNT_DEACTIVATED'')
                 | Inl TokenExpiredError \<Rightarrow> Respond 401 ''TOKEN_EXPIRED''
                 | Inl (JsonWebTokenError msg) \<Rightarrow> Respond 401 ''INVALID_TOKEN''
                 | Inl (OtherError msg) \<Rightarrow> Respond 500 ''AUTH_ERROR'')"
    using h
    by (simp add: authenticateToken_def lookupUser_def requestUser_def Let_def
        split: sum.splits option.splits jwt_error.splits)
  show "optionalAuth L env now users authHeader
              = (case jwtVerify L now token (JWT_SECRET env)
                        \<lparr>verifyIssuer = None, verifyAudience = None\<rparr> of
                   Inr decoded \<Rightarrow>
                     (case lookupUser users (payloadEmployeeId decoded) of
                        None \<Rightarrow> None
                      | Some u \<Rightarrow> if isActive u then Some (requestUser u) else None)
                 | Inl e \<Rightarrow> None)"
    using h
    by (simp add: optionalAuth_def lookupUser_def split: sum.splits option.splits)
qed

lemma stand_in_header:
  "headerToken (Some ''Bearer header.payload.signature'') = Some ''header.payload.signature''"
  by (simp add: headerToken_def Let_def)

theorem verification_ignores_blacklist_witness:
  "isTokenBlacklisted 1705330000000 sampleBlacklist ''header.payload.signature''
     = (True, sampleBlacklist) \<and>
   optionalAuth standInLibs standInEnv 1705330000000 users0
       (Some ''Bearer header.payload.signature'') = Some captainJohnson \<and>
   isTokenBlacklisted 1705330900000 sampleBlacklist ''header.payload.signature''
     = (True, sampleBlacklist) \<and>
   verifyAccessToken standInLibs standInEnv 1705330900000 ''header.payload.signature''
     = Inl ''Invalid access token: jwt expired'' \<and>
   authenticateToken standInLibs standInEnv 1705330900000 users0
       (Some ''Bearer header.payload.signature'') = Respond 401 ''TOKEN_EXPIRED'' \<and>
   optionalAuth standInLibs standInEnv 1705330900000 users0
       (Some ''Bearer header.payload.signature'') = None"
proof -
  have b: "sampleBlacklist = Some (Map.empty(''header.payload.signature'' \<mapsto> 1705330900000))"
    "(Map.empty(''header.payload.signature'' \<mapsto> 1705330900000 :: timestamp))
       ''header.payload.signature'' = Some 1705330900000"
    by (simp_all add: sampleBlacklist_def)
  have v: "jwtVerify standInLibs 1705330000000 ''header.payload.signature''
             (JWT_SECRET standInEnv) opts
           = Inr (AccessPayload ''AA12345'' ''Captain Sarah Johnson'' ''pilot''
                    ''flight-operations'' 5 ''American Airlines'')"
    "jwtVerify standInLibs 1705330900000 ''header.payload.signature''
             (JWT_SECRET standInEnv) opts = Inl TokenExpiredError" for opts
    by (simp_all add: standInLibs_def standInEnv_def)
  have e: "payloadEmployeeId (AccessPayload ''AA12345'' ''Captain Sarah Johnson'' ''pilot''
                    ''flight-operations'' 5 ''American Airlines'') = ''AA12345''"
    by (simp add: payloadEmployeeId_def)
  have a: "isActive (hd users0)" "requestUser (hd users0) = captainJohnson"
    by (simp_all add: users0_def requestUser_def captainJohnson_def)
  from verification_ignores_blacklist
         [OF b(1) b(2), of 1705330000000 standInLibs standInEnv
            "Some ''Bearer header.payload.signature''" users0]
       stand_in_header v(1) e a lookup_users0_captain
  have early: "isTokenBlacklisted 1705330000000 sampleBlacklist ''header.payload.signature''
     = (True, sampleBlacklist) \<and>
   optionalAuth standInLibs standInEnv 1705330000000 users0
       (Some ''Bearer header.payload.signature'') = Some captainJohnson"
    by simp
  from verification_ignores_blacklist
         [OF b(1) b(2), of 1705330900000 standInLibs standInEnv
            "Some ''Bearer header.payload.signature''" users0]
       stand_in_header v(2)
  have late: "isTokenBlacklisted 1705330900000 sampleBlacklist ''header.payload.signature''
     = (True, sampleBlacklist) \<and>
   verifyAccessToken standInLibs standInEnv 1705330900000 ''header.payload.signature''
     = Inl ''Invalid access token: jwt expired'' \<and>
   authenticateToken standInLibs standInEnv 1705330900000 users0
       (Some ''Bearer header.payload.signature'') = Respond 401 ''TOKEN_EXPIRED'' \<and>
   optionalAuth standInLibs standInEnv 1705330900000 users0
       (Some ''Bearer header.payload.signature'') = None"
    by (simp add: jwtErrorMessage_def)
  from early late show ?thesis by simp
qed

text \<open>
  The claim as stated fails: a token that is in the blacklist and not expired, and whose
  signature verifies, is accepted by both verification paths.
\<close>

theorem blacklisted_token_accepted_counterexample:
  "isTokenBlacklisted 1705330000000 sampleBlacklist ''header.payload.signature''
     = (True, sampleBlacklist) \<and>
   verifyAccessToken standInLibs standInEnv 1705330000000 ''header.payload.signature''
     = Inr (AccessPayload ''AA12345'' ''Captain Sarah Johnson'' ''pilot''
              ''flight-operations'' 5 ''American Airlines'') \<and>
   authenticateToken standInLibs standInEnv 1705330000000 users0
       (Some ''Bearer header.payload.signature'') = Next captainJohnson"
  by (simp add: isTokenBlacklisted_def sampleBlacklist_def verifyAccessToken_def
      authenticateToken_def headerToken_def payloadEmployeeId_def findUserByEmployeeId_def
      standInLibs_def standInEnv_def users0_def captainJohnson_def Let_def)

subsection \<open>Encryption round trip\<close>

lemma less_16_cases:
  "(h::nat) < 16 \<Longrightarrow>
     h = 0 \<or> h = 1 \<or> h = 2 \<or> h = 3 \<or> h = 4 \<or> h = 5 \<or> h = 6 \<or> h = 7 \<or>
     h = 8 \<or> h = 9 \<or> h = 10 \<or> h = 11 \<or> h = 12 \<or> h = 13 \<or> h = 14 \<or> h = 15"
  by arith

lemma hexValue_hexDigit: "h < 16 \<Longrightarrow> hexValue (hexDigit h) = Some h"
  by (drule less_16_cases) (auto simp: hexValue_def hexDigit_def Let_def)

lemma hexDigit_not_colon: "h < 16 \<Longrightarrow> hexDigit h \<noteq> CHR '':''"
  by (drule less_16_cases) (auto simp: hexDigit_def)

lemma of_char_less_256: "(of_char c :: nat) < 256"
  by (metis of_char_mod_256 mod_less_divisor zero_less_numeral)

lemma byte_div_16: "(of_char c :: nat) div 16 < 16"
proof -
  have "(of_char c :: nat) < 16 * 16" using of_char_less_256 [of c] by simp
  then show ?thesis by (simp only: div_less_iff_less_mult [symmetric] zero_less_numeral)
qed

lemma toHex_Cons:
  "toHex (b # bs) = hexDigit (of_char b div 16) # hexDigit (of_char b mod 16) # toHex bs"
  by (simp add: toHex_def)

lemma fromHex_toHex: "fromHex (toHex bs) = bs"
proof (induction bs)
  case Nil
  then show ?case by (simp add: toHex_def)
next
  case (Cons b bs)
  have "char_of (16 * ((of_char b :: nat) div 16) + of_char b mod 16) = b"
    by simp
  with Cons show ?case
    by (simp add: toHex_Cons hexValue_hexDigit byte_div_16)
qed

lemma colon_not_in_toHex: "CHR '':'' \<notin> set (toHex bs)"
proof (induction bs)
  case Nil
  then show ?case by (simp add: toHex_def)
next
  case (Cons b bs)
  have "hexDigit (of_char b div 16) \<noteq> CHR '':''" "hexDigit (of_char b mod 16) \<noteq> CHR '':''"
    by (simp_all add: hexDigit_not_colon byte_div_16)
  with Cons show ?case by (auto simp: toHex_Cons)
qed

lemma splitOn_no_separator: "c \<notin> set s \<Longrightarrow> splitOn c s = [s]"
  by (induction s) auto

lemma splitOn_append: "c \<notin> set s \<Longrightarrow> splitOn c (s @ c # rest) = s # splitOn c rest"
  by (induction s) auto

lemma splitOn_three:
  assumes "c \<notin> set x" "c \<notin> set y" "c \<notin> set z"
  shows "splitOn c (x @ [c] @ y @ [c] @ z) = [x, y, z]"
  using assms by (simp add: splitOn_append splitOn_no_separator)

text \<open>
  With a library in which the two functions exist and the decipher undoes the cipher,
  and whose base64 codec decodes what it encodes, the utilities do what the claim
  says of the round trip.
\<close>

lemma message_roundtrip_when_cipher_exists:
  assumes enc: "createCipherGCM N ALGORITHM k iv ''aviation-message'' message = Inr (c, t)"
    and dec: "createDecipherGCM N ALGORITHM k iv ''aviation-message'' t c = Inr message"
    and b64: "fromBase64 N (toBase64 N k) = k"
  shows "\<exists>e. encryptMessage N k iv message = Inr e \<and>
             decryptMessage N (encryptedContent e) (key e) = Inr message"
proof -
  let ?e = "\<lparr>encryptedContent = toHex iv @ '':'' @ toHex c @ '':'' @ toHex t,
             key = toBase64 N k\<rparr>"
  have e: "encryptMessage N k iv message = Inr ?e"
    using enc by (simp add: encryptMessage_def)
  have parts: "splitOn CHR '':'' (toHex iv @ CHR '':'' # toHex c @ CHR '':'' # toHex t)
                 = [toHex iv, toHex c, toHex t]"
    using splitOn_three [of "CHR '':''" "toHex iv" "toHex c" "toHex t"]
    by (simp add: colon_not_in_toHex)
  have "decryptMessage N (encryptedContent ?e) (key ?e) = Inr message"
    using dec b64 by (simp add: decryptMessage_def parts Let_def fromHex_toHex)
  with e show ?thesis by blast
qed

lemma file_roundtrip_when_cipher_exists:
  assumes enc: "createCipherGCM N ALGORITHM k iv ''aviation-document'' fileBuffer = Inr (c, t)"
    and dec: "createDecipherGCM N ALGORITHM k iv ''aviation-document'' t c = Inr fileBuffer"
    and b64: "\<forall>x. fromBase64 N (toBase64 N x) = x"
    and len: "length iv = IV_LENGTH" "length t = TAG_LENGTH"
  shows "\<exists>e. encryptFile N k iv fileBuffer = Inr e \<and>
             decryptFile N (encryptedContent e) (key e) = Inr fileBuffer"
proof -
  let ?e = "\<lparr>encryptedContent = toBase64 N (iv @ c @ t), key = toBase64 N k\<rparr>"
  have e: "encryptFile N k iv fileBuffer = Inr ?e"
    using enc by (simp add: encryptFile_def)
  have "decryptFile N (encryptedContent ?e) (key ?e) = Inr fileBuffer"
    using dec b64 len by (simp add: decryptFile_def Let_def)
  with e show ?thesis by blast
qed

text \<open>
  Claim C3 on the code as it runs. Node's crypto module has neither of the two
  functions that the utilities call, so every encryption throws before a ciphertext
  exists and every decryption throws as well: decryption fails closed on every input,
  and no round trip returns the plaintext.
\<close>

theorem encryption_throws_on_node:
  "encryptMessage nodeLib k iv message
     = Inl ''Message encryption failed: crypto.createCipherGCM is not a function'' \<and>
   encryptFile nodeLib k iv fileBuffer
     = Inl ''File encryption failed: crypto.createCipherGCM is not a function'' \<and>
   (\<exists>e. decryptMessage nodeLib encryptedMessage keyBase64 = Inl e) \<and>
   decryptFile nodeLib encryptedFileBase64 keyBase64
     = Inl ''File decryption failed: crypto.createDecipherGCM is not a function''"
  by (simp add: encryptMessage_def encryptFile_def decryptMessage_def decryptFile_def
      nodeLib_def Let_def)

end
